theory Spec2Isabelle
  imports Main "HOL-Library.Word"
begin

section \<open>The console entry point of the service (win/win\_console.cpp)\<close>

text \<open>
  The file under verification is the console front end of the Windows service: it reads the
  process arguments, dispatches to the service controller, to the TAP, WinTUN and WFP callout
  driver installers or to the daemon, and turns a thrown \<open>Error\<close> into an exit code.

  Everything the file calls but does not define (the service controller, the driver
  installers, the WinTUN module, \<open>Exec::cmd\<close>, the daemon object, the console API, the
  path and version constants) is a field of an environment record. An external call reads
  and changes an abstract world \<open>'w\<close>; a call that can raise the domain error returns
  \<open>Error + 'a\<close>, with \<open>Inl\<close> for the raised error. Every external call, every log line
  and every line printed is appended to a trace, in program order.
\<close>

subsection \<open>Values\<close>

text \<open>The members of \<open>DriverStatus\<close> that the file names.\<close>

datatype DriverStatus =
    DriverInstalled
  | DriverInstalledReboot
  | DriverInstallFailed
  | DriverUninstalled
  | DriverUninstalledReboot
  | DriverUninstallFailed

text \<open>The domain error; the file reads nothing of it but \<open>systemCode()\<close>.\<close>

datatype Error = Error (systemCode: int)

text \<open>The Windows system error codes named in the \<open>catch\<close> block (winerror.h, setupapi.h).\<close>

definition ERROR_SERVICE_ALREADY_RUNNING :: int where
  "ERROR_SERVICE_ALREADY_RUNNING = 1056"

definition ERROR_SERVICE_DOES_NOT_EXIST :: int where
  "ERROR_SERVICE_DOES_NOT_EXIST = 1060"

definition ERROR_SERVICE_NOT_ACTIVE :: int where
  "ERROR_SERVICE_NOT_ACTIVE = 1062"

definition ERROR_SERVICE_MARKED_FOR_DELETE :: int where
  "ERROR_SERVICE_MARKED_FOR_DELETE = 1072"

definition ERROR_SERVICE_EXISTS :: int where
  "ERROR_SERVICE_EXISTS = 1073"

definition ERROR_AUTHENTICODE_TRUST_NOT_ESTABLISHED :: int where
  "ERROR_AUTHENTICODE_TRUST_NOT_ESTABLISHED = 0xE0000242"

definition ERROR_AUTHENTICODE_PUBLISHER_NOT_TRUSTED :: int where
  "ERROR_AUTHENTICODE_PUBLISHER_NOT_TRUSTED = 0xE0000243"

text \<open>The console control events (\<open>DWORD dwCtrlType\<close>, wincon.h).\<close>

definition CTRL_C_EVENT :: "32 word" where
  "CTRL_C_EVENT = 0"

definition CTRL_BREAK_EVENT :: "32 word" where
  "CTRL_BREAK_EVENT = 1"

definition CTRL_CLOSE_EVENT :: "32 word" where
  "CTRL_CLOSE_EVENT = 2"

definition CTRL_LOGOFF_EVENT :: "32 word" where
  "CTRL_LOGOFF_EVENT = 5"

definition CTRL_SHUTDOWN_EVENT :: "32 word" where
  "CTRL_SHUTDOWN_EVENT = 6"

subsection \<open>Observable effects\<close>

text \<open>A \<open>WinDaemon*\<close> is an address.\<close>

type_synonym handle = nat

datatype logfile = ConfigLogFile | DaemonLogFile

datatype severity = Critical | Warning | Info

datatype item = Text string | Tokens "string list" | Number int | Raised Error

datatype stream = stdout | stderr

text \<open>
  One constructor per external operation the file calls, with the arguments the file passes.
\<close>

datatype call =
    Service_install
  | Service_uninstall
  | Service_start
  | Service_stop
  | Tap_install string bool bool bool
  | Tap_uninstall bool bool
  | Callout_install string bool
  | Callout_uninstall string bool
  | Wintun_open
  | Wintun_close
  | Wintun_deleteDriver
  | Wintun_recreateAdapter string
  | Exec_cmd string "string list"
  | Daemon_new
  | Connect_started_exec
  | Connect_stopped_quit
  | Console_ctrl_handler bool
  | Daemon_start handle
  | Daemon_stop handle

datatype event =
    Log severity "item list"
  | Print stream "string list"
  | NewLogger logfile
  | Call call
  | InvokeMethod_stopDaemon

text \<open>
  The calls into the service controller, the driver installers, the WinTUN module, the
  control client and the daemon: everything but logging and printing.
\<close>

fun is_operation :: "event \<Rightarrow> bool" where
  "is_operation (Call c) = True"
| "is_operation InvokeMethod_stopDaemon = True"
| "is_operation (Log v xs) = False"
| "is_operation (Print f ls) = False"
| "is_operation (NewLogger f) = False"

definition operations :: "event list \<Rightarrow> event list" where
  "operations tr = filter is_operation tr"

subsection \<open>State and environment\<close>

text \<open>
  \<open>daemon\<close> is the member \<open>_daemon\<close>: \<open>None\<close> until \<open>runDaemon\<close> has stored the object
  it constructs (the constructor of \<open>WinConsole\<close> initialises \<open>_arguments\<close> only).
\<close>

record 'w state =
  daemon :: "handle option"
  world :: 'w
  trace :: "event list"

text \<open>
  The environment. \<open>DriverStatus_value\<close> is the integer an enumerator converts to; the
  directories, names and version are the constants of \<open>Path\<close>, brand.h, product.h,
  version.h and \<open>WintunData\<close>; \<open>path_append\<close> is \<open>Path::operator/\<close>;
  \<open>installTapDriver_default_force\<close> is the default argument that win\_console.h gives
  \<open>installTapDriver\<close>. The service controller, the installers of tap\_inl.h, the WinTUN
  module and the daemon may raise; \<open>WintunModule_recreateAdapter\<close> answers whether the
  adapter pointer is non-null. \<open>Exec::cmd\<close> reports through its exit status only (the
  source: "Result traced by cmd(), nothing to do if it fails"), and
  \<open>SetConsoleCtrlHandler\<close> through its \<open>BOOL\<close>.
\<close>

record 'w env =
  DriverStatus_value :: "DriverStatus \<Rightarrow> int"
  IsWindows10OrGreater :: bool
  TapDriverDir :: string
  WfpCalloutDriverDir :: string
  InstallationDir :: string
  BRAND_CODE :: string
  PIA_PRODUCT_NAME :: string
  semanticVersion :: string
  pOpenVPNName :: string
  path_append :: "string \<Rightarrow> string \<Rightarrow> string"
  toNativeSeparators :: "string \<Rightarrow> string"
  baseName :: "string \<Rightarrow> string"
  installTapDriver_default_force :: bool
  WinService_installService :: "'w \<Rightarrow> (Error + int) \<times> 'w"
  WinService_uninstallService :: "'w \<Rightarrow> (Error + int) \<times> 'w"
  WinService_startService :: "'w \<Rightarrow> (Error + int) \<times> 'w"
  WinService_stopService :: "'w \<Rightarrow> (Error + int) \<times> 'w"
  tap_installTapDriver :: "string \<Rightarrow> bool \<Rightarrow> bool \<Rightarrow> bool \<Rightarrow> 'w \<Rightarrow> (Error + int) \<times> 'w"
  tap_uninstallTapDriver :: "bool \<Rightarrow> bool \<Rightarrow> 'w \<Rightarrow> (Error + int) \<times> 'w"
  tap_installCalloutDriver :: "string \<Rightarrow> bool \<Rightarrow> 'w \<Rightarrow> (Error + int) \<times> 'w"
  tap_uninstallCalloutDriver :: "string \<Rightarrow> bool \<Rightarrow> 'w \<Rightarrow> (Error + int) \<times> 'w"
  WintunModule_ctor :: "'w \<Rightarrow> (Error + unit) \<times> 'w"
  WintunModule_dtor :: "'w \<Rightarrow> 'w"
  WintunModule_deleteDriver :: "'w \<Rightarrow> (Error + bool) \<times> 'w"
  WintunModule_recreateAdapter :: "string \<Rightarrow> 'w \<Rightarrow> (Error + bool) \<times> 'w"
  Exec_cmd_run :: "string \<Rightarrow> string list \<Rightarrow> 'w \<Rightarrow> int \<times> 'w"
  WinDaemon_new :: "'w \<Rightarrow> (Error + handle) \<times> 'w"
  SetConsoleCtrlHandler :: "bool \<Rightarrow> 'w \<Rightarrow> bool \<times> 'w"
  WinDaemon_start :: "handle \<Rightarrow> 'w \<Rightarrow> (Error + unit) \<times> 'w"
  WinDaemon_stop :: "handle \<Rightarrow> 'w \<Rightarrow> (Error + unit) \<times> 'w"

text \<open>
  A member function of the file: from a state to a returned value or a raised \<open>Error\<close>,
  and the state it leaves.
\<close>

type_synonym ('w, 'a) act = "'w state \<Rightarrow> (Error + 'a) \<times> 'w state"

definition return_act :: "'a \<Rightarrow> ('w, 'a) act" where
  "return_act x = (\<lambda>s. (Inr x, s))"

definition bind_act :: "('w, 'a) act \<Rightarrow> ('a \<Rightarrow> ('w, 'b) act) \<Rightarrow> ('w, 'b) act" where
  "bind_act m f = (\<lambda>s. case m s of (Inl e, s') \<Rightarrow> (Inl e, s') | (Inr x, s') \<Rightarrow> f x s')"

definition try_catch :: "('w, 'a) act \<Rightarrow> (Error \<Rightarrow> ('w, 'a) act) \<Rightarrow> ('w, 'a) act" where
  "try_catch m h = (\<lambda>s. case m s of (Inl e, s') \<Rightarrow> h e s' | (Inr x, s') \<Rightarrow> (Inr x, s'))"

definition emit :: "event \<Rightarrow> ('w, unit) act" where
  "emit ev = (\<lambda>s. (Inr (), s\<lparr>trace := trace s @ [ev]\<rparr>))"

text \<open>An external call that may raise: recorded in the trace, then run on the world.\<close>

definition extern :: "call \<Rightarrow> ('w \<Rightarrow> (Error + 'a) \<times> 'w) \<Rightarrow> ('w, 'a) act" where
  "extern c f = (\<lambda>s. case f (world s) of
     (r, w') \<Rightarrow> (r, s\<lparr>world := w', trace := trace s @ [Call c]\<rparr>))"

text \<open>An external call that reports through its return value only.\<close>

definition extern_total :: "call \<Rightarrow> ('w \<Rightarrow> 'a \<times> 'w) \<Rightarrow> ('w, 'a) act" where
  "extern_total c f = (\<lambda>s. case f (world s) of
     (x, w') \<Rightarrow> (Inr x, s\<lparr>world := w', trace := trace s @ [Call c]\<rparr>))"

text \<open>A local object with a destructor: the destructor runs on every way out of the scope.\<close>

definition scoped :: "('w, 'a) act \<Rightarrow> call \<Rightarrow> ('w \<Rightarrow> 'w) \<Rightarrow> ('w, 'a) act" where
  "scoped m c d = (\<lambda>s. case m s of
     (r, s') \<Rightarrow> (r, s'\<lparr>world := d (world s'), trace := trace s' @ [Call c]\<rparr>))"

subsection \<open>The console control handler\<close>

text \<open>
  \<open>QMetaObject::invokeMethod(g_console, &WinConsole::stopDaemon)\<close> hands the call of
  \<open>stopDaemon\<close> to the console object; the handler does not run it and does not wait for it.
\<close>

definition ctrlHandler :: "32 word \<Rightarrow> 'w state \<Rightarrow> bool \<times> 'w state" where
  "ctrlHandler dwCtrlType s =
    (if dwCtrlType = CTRL_C_EVENT \<or> dwCtrlType = CTRL_BREAK_EVENT then
       (True, s\<lparr>trace := trace s @ [Print stderr [''Terminating...''], InvokeMethod_stopDaemon]\<rparr>)
     else if dwCtrlType = CTRL_CLOSE_EVENT \<or> dwCtrlType = CTRL_LOGOFF_EVENT
            \<or> dwCtrlType = CTRL_SHUTDOWN_EVENT then
       (False, s\<lparr>trace := trace s @ [Print stderr [''Terminating...''], InvokeMethod_stopDaemon]\<rparr>)
     else (False, s))"

subsection \<open>Driver operations\<close>

definition getInfPath :: "'w env \<Rightarrow> string" where
  "getInfPath env = toNativeSeparators env
     (path_append env
        (path_append env (TapDriverDir env)
           (if IsWindows10OrGreater env then ''win10'' else ''win7''))
        ''OemVista.inf'')"

definition getWfpCalloutInfPath :: "'w env \<Rightarrow> string" where
  "getWfpCalloutInfPath env = toNativeSeparators env
     (path_append env
        (path_append env (WfpCalloutDriverDir env)
           (if IsWindows10OrGreater env then ''win10'' else ''win7''))
        ''PiaWfpCallout.inf'')"

definition global_installTapDriver ::
  "'w env \<Rightarrow> string \<Rightarrow> bool \<Rightarrow> bool \<Rightarrow> bool \<Rightarrow> ('w, int) act" where
  "global_installTapDriver env infPath a force b =
     extern (Tap_install infPath a force b) (tap_installTapDriver env infPath a force b)"

definition global_uninstallTapDriver :: "'w env \<Rightarrow> bool \<Rightarrow> bool \<Rightarrow> ('w, int) act" where
  "global_uninstallTapDriver env a b =
     extern (Tap_uninstall a b) (tap_uninstallTapDriver env a b)"

definition global_installCalloutDriver :: "'w env \<Rightarrow> string \<Rightarrow> bool \<Rightarrow> ('w, int) act" where
  "global_installCalloutDriver env infPath b =
     extern (Callout_install infPath b) (tap_installCalloutDriver env infPath b)"

definition global_uninstallCalloutDriver :: "'w env \<Rightarrow> string \<Rightarrow> bool \<Rightarrow> ('w, int) act" where
  "global_uninstallCalloutDriver env infPath b =
     extern (Callout_uninstall infPath b) (tap_uninstallCalloutDriver env infPath b)"

definition installTapDriver :: "'w env \<Rightarrow> bool \<Rightarrow> ('w, int) act" where
  "installTapDriver env force = global_installTapDriver env (getInfPath env) False force False"

definition uninstallTapDriver :: "'w env \<Rightarrow> ('w, int) act" where
  "uninstallTapDriver env = global_uninstallTapDriver env True False"

definition reinstallTapDriver :: "'w env \<Rightarrow> ('w, int) act" where
  "reinstallTapDriver env =
     bind_act (global_uninstallTapDriver env False False) (\<lambda>_.
       global_installTapDriver env (getInfPath env) False True False)"

text \<open>
  The two WinTUN operations end in \<open>return DriverStatus::...\<close>; the functions below give
  the enumerator that is returned, and \<open>uninstallWintunDriver\<close> and
  \<open>createWintunAdapter\<close> its conversion to \<open>int\<close>.
\<close>

definition uninstallWintunDriver_status :: "'w env \<Rightarrow> ('w, DriverStatus) act" where
  "uninstallWintunDriver_status env =
     bind_act (extern Wintun_open (WintunModule_ctor env)) (\<lambda>_.
       scoped
         (let rebootRequiredWireGuard = False;
              rebootRequiredOpenVPN = False;
              rebootRequiredUninstall = False
          in bind_act (extern Wintun_deleteDriver (WintunModule_deleteDriver env)) (\<lambda>deleted.
               if \<not> deleted then
                 bind_act (emit (Log Warning
                     [Text ''WintunDeleteDriver failed to delete WinTUN driver''])) (\<lambda>_.
                   return_act DriverUninstallFailed)
               else if rebootRequiredWireGuard \<or> rebootRequiredOpenVPN
                       \<or> rebootRequiredUninstall then
                 bind_act (emit (Log Info [Text ''WinTUN uninstall requested a reboot''])) (\<lambda>_.
                   return_act DriverUninstalledReboot)
               else return_act DriverUninstalled))
         Wintun_close (WintunModule_dtor env))"

definition uninstallWintunDriver :: "'w env \<Rightarrow> ('w, int) act" where
  "uninstallWintunDriver env =
     bind_act (uninstallWintunDriver_status env) (\<lambda>st. return_act (DriverStatus_value env st))"

definition createWintunAdapter_status :: "'w env \<Rightarrow> ('w, DriverStatus) act" where
  "createWintunAdapter_status env =
     bind_act (extern Wintun_open (WintunModule_ctor env)) (\<lambda>_.
       scoped
         (let rebootRequired = False
          in bind_act (extern (Wintun_recreateAdapter (pOpenVPNName env))
                         (WintunModule_recreateAdapter env (pOpenVPNName env))) (\<lambda>adapter.
               if \<not> adapter then return_act DriverInstallFailed
               else if rebootRequired then return_act DriverInstalledReboot
               else return_act DriverInstalled))
         Wintun_close (WintunModule_dtor env))"

definition createWintunAdapter :: "'w env \<Rightarrow> ('w, int) act" where
  "createWintunAdapter env =
     bind_act (createWintunAdapter_status env) (\<lambda>st. return_act (DriverStatus_value env st))"

definition installCalloutDriver :: "'w env \<Rightarrow> ('w, int) act" where
  "installCalloutDriver env = global_installCalloutDriver env (getWfpCalloutInfPath env) False"

definition uninstallCalloutDriver :: "'w env \<Rightarrow> ('w, int) act" where
  "uninstallCalloutDriver env =
     global_uninstallCalloutDriver env (getWfpCalloutInfPath env) False"

definition reinstallCalloutDriver :: "'w env \<Rightarrow> ('w, int) act" where
  "reinstallCalloutDriver env =
     bind_act (global_uninstallCalloutDriver env (getWfpCalloutInfPath env) False)
       (\<lambda>uninstallResult.
     bind_act (emit (Log Info [Text ''Uninstall result:'', Number uninstallResult])) (\<lambda>_.
       if uninstallResult = DriverStatus_value env DriverUninstalledReboot then
         bind_act (emit (Log Info
             [Text ''Restart the computer to complete uninstallation, then install again.'']))
           (\<lambda>_. return_act uninstallResult)
       else global_installCalloutDriver env (getWfpCalloutInfPath env) False))"

subsection \<open>Matching a token against a command word\<close>

text \<open>
  \<open>MATCH_ARG(i, text)\<close> is \<open>0 == args.at(i).compare(QLatin1String(text), Qt::CaseInsensitive)\<close>.
  Qt compares the two strings position by position on case-folded characters and, all
  positions being equal, by length. Tokens are strings of 8-bit characters here; on these a
  character folds to a letter \<open>a\<close>..\<open>z\<close> exactly when it is that letter or its capital.
  \<open>args.at(i)\<close> is read unguarded, as in the macro: every use below stands behind the
  test of \<open>args.count()\<close> that the source puts in front of it.
\<close>

definition foldCase :: "char \<Rightarrow> nat" where
  "foldCase c = (let u = of_char c in if 65 \<le> u \<and> u \<le> 90 then u + 32 else u)"

fun compare_CaseInsensitive :: "string \<Rightarrow> string \<Rightarrow> int" where
  "compare_CaseInsensitive [] [] = 0"
| "compare_CaseInsensitive [] (b # bs) = - 1"
| "compare_CaseInsensitive (a # as) [] = 1"
| "compare_CaseInsensitive (a # as) (b # bs) =
     (let diff = int (foldCase a) - int (foldCase b)
      in if diff \<noteq> 0 then diff else compare_CaseInsensitive as bs)"

definition MATCH_ARG :: "string list \<Rightarrow> nat \<Rightarrow> string \<Rightarrow> bool" where
  "MATCH_ARG args i text \<longleftrightarrow> 0 = compare_CaseInsensitive (args ! i) text"

subsection \<open>The daemon\<close>

definition runDaemon :: "'w env \<Rightarrow> ('w, int) act" where
  "runDaemon env =
     bind_act (extern Daemon_new (WinDaemon_new env)) (\<lambda>d.
     bind_act (\<lambda>s. (Inr (), s\<lparr>daemon := Some d\<rparr>)) (\<lambda>_.
     bind_act (emit (Call Connect_started_exec)) (\<lambda>_.
     bind_act (emit (Call Connect_stopped_quit)) (\<lambda>_.
     bind_act (extern_total (Console_ctrl_handler True) (SetConsoleCtrlHandler env True))
       (\<lambda>ctrlHandlerInstalled.
     bind_act (extern (Daemon_start d) (WinDaemon_start env d)) (\<lambda>_.
     bind_act (if ctrlHandlerInstalled
               then bind_act (extern_total (Console_ctrl_handler False)
                                (SetConsoleCtrlHandler env False)) (\<lambda>_. return_act ())
               else return_act ()) (\<lambda>_.
       return_act 0)))))))"

text \<open>
  \<open>stopDaemon\<close> is \<open>_daemon->stop()\<close> with no test of \<open>_daemon\<close>. With a daemon object
  behind the pointer the call is the daemon's \<open>stop\<close>, and what that returns or raises is the
  outcome of \<open>stopDaemon\<close>. Without one the call is undefined behaviour: the process has no
  defined result and no defined state afterwards, which is \<open>None\<close>.
\<close>

definition stopDaemon :: "'w env \<Rightarrow> 'w state \<Rightarrow> ((Error + unit) \<times> 'w state) option" where
  "stopDaemon env s =
     (case daemon s of
        None \<Rightarrow> None
      | Some d \<Rightarrow> Some (extern (Daemon_stop d) (WinDaemon_stop env d) s))"

text \<open>
  Modelled from the spec: the states of a daemon object, which is defined outside
  win\_console.cpp. The specification names them Idle, Running, Stopping and Stopped.
\<close>

datatype phase = Idle | Running | Stopping | Stopped

text \<open>
  Modelled from the spec: the daemon objects of the process, each in one of these states;
  the part of the world that \<open>Daemon::stop\<close> works on.
\<close>

record daemon_objects =
  daemon_phase :: "handle \<Rightarrow> phase"

text \<open>
  Modelled from the spec: what a stop request does to the state of a daemon, \<open>Daemon::stop\<close>
  being defined outside win\_console.cpp. The specification says that a request delivered
  before the daemon has finished starting must still result in the daemon stopping, that
  one delivered after the daemon has begun stopping must not deadlock, and that one
  delivered after the daemon has stopped must be a no-op, not an error.
\<close>

fun stop_request :: "phase \<Rightarrow> phase" where
  "stop_request Idle = Stopping"
| "stop_request Running = Stopping"
| "stop_request Stopping = Stopping"
| "stop_request Stopped = Stopped"

text \<open>
  Modelled from the spec: \<open>Daemon::stop\<close>, the stop entry point of the daemon object that
  \<open>stopDaemon\<close> forwards to. It applies the stop request to the daemon addressed and
  returns; it never raises.
\<close>

definition Daemon_stop_spec ::
  "handle \<Rightarrow> 'a daemon_objects_scheme \<Rightarrow> (Error + unit) \<times> 'a daemon_objects_scheme" where
  "Daemon_stop_spec d w =
     (Inr (), w\<lparr>daemon_phase := (daemon_phase w)(d := stop_request (daemon_phase w d))\<rparr>)"

subsection \<open>Help\<close>

definition help_text :: "'w env \<Rightarrow> string list" where
  "help_text env =
     [PIA_PRODUCT_NAME env @ '' Service v'' @ semanticVersion env,
      [],
      ''Usage:'',
      ''  '' @ BRAND_CODE env @ ''-service <command>'',
      [],
      ''Available commands:'',
      ''  install        Install service'',
      ''  uninstall      Uninstall service'',
      ''  start          Start service'',
      ''  stop           Stop service'',
      ''  run            Run interactively'',
      ''  tap install    Install TAP adapter'',
      ''  tap uninstall  Uninstall TAP adapter'',
      ''  tap reinstall  Reinstall TAP adapter'',
      ''  callout install Install WFP Callout driver'',
      ''  callout uninstall Uninstall WFP Callout driver'',
      ''  callout reinstall (Re)install WFP Callout driver'']"

definition showHelp :: "'w env \<Rightarrow> ('w, int) act" where
  "showHelp env = bind_act (emit (Print stdout (help_text env))) (\<lambda>_. return_act 0)"

subsection \<open>Dispatch\<close>

definition unrecognizedCommand :: "'w env \<Rightarrow> string list \<Rightarrow> ('w, int) act" where
  "unrecognizedCommand env args =
     bind_act (emit (Log Critical [Text ''Unrecognized command:'', Tokens (drop 1 args)])) (\<lambda>_.
     bind_act (emit (Print stdout
         [''Unrecognized command; type '' @ [CHR 0x27] @ baseName env (args ! 0)
            @ '' help'' @ [CHR 0x27] @ '' for a list of available commands.''])) (\<lambda>_.
       return_act 1))"

definition sendCheckDriverHint :: "'w env \<Rightarrow> ('w, unit) act" where
  "sendCheckDriverHint env =
     bind_act (extern_total
         (Exec_cmd (path_append env (InstallationDir env) (BRAND_CODE env @ ''ctl.exe''))
            [''-u'', ''checkdriver''])
         (Exec_cmd_run env (path_append env (InstallationDir env) (BRAND_CODE env @ ''ctl.exe''))
            [''-u'', ''checkdriver''])) (\<lambda>_.
       return_act ())"

text \<open>The body of the \<open>try\<close> block.\<close>

definition dispatch :: "'w env \<Rightarrow> string list \<Rightarrow> ('w, int) act" where
  "dispatch env args =
    (if MATCH_ARG args 1 ''help'' \<or> MATCH_ARG args 1 ''/?'' then showHelp env
     else if MATCH_ARG args 1 ''run'' then runDaemon env
     else if MATCH_ARG args 1 ''install'' then
       extern Service_install (WinService_installService env)
     else if MATCH_ARG args 1 ''uninstall'' then
       extern Service_uninstall (WinService_uninstallService env)
     else if MATCH_ARG args 1 ''start'' then
       extern Service_start (WinService_startService env)
     else if MATCH_ARG args 1 ''stop'' then
       extern Service_stop (WinService_stopService env)
     else if MATCH_ARG args 1 ''tap'' \<and> length args > 2 then
       (if MATCH_ARG args 2 ''install'' then
          installTapDriver env (installTapDriver_default_force env)
        else if MATCH_ARG args 2 ''uninstall'' then uninstallTapDriver env
        else if MATCH_ARG args 2 ''reinstall'' then reinstallTapDriver env
        else unrecognizedCommand env args)
     else if MATCH_ARG args 1 ''tun'' \<and> length args > 2 then
       (if MATCH_ARG args 2 ''uninstall'' then uninstallWintunDriver env
        else if MATCH_ARG args 2 ''create'' then createWintunAdapter env
        else unrecognizedCommand env args)
     else if MATCH_ARG args 1 ''callout'' \<and> length args > 2 then
       (if MATCH_ARG args 2 ''install'' then
          bind_act (installCalloutDriver env) (\<lambda>result.
          bind_act (sendCheckDriverHint env) (\<lambda>_. return_act result))
        else if MATCH_ARG args 2 ''uninstall'' then
          bind_act (uninstallCalloutDriver env) (\<lambda>result.
          bind_act (sendCheckDriverHint env) (\<lambda>_. return_act result))
        else if MATCH_ARG args 2 ''reinstall'' then
          bind_act (reinstallCalloutDriver env) (\<lambda>result.
          bind_act (sendCheckDriverHint env) (\<lambda>_. return_act result))
        else unrecognizedCommand env args)
     else unrecognizedCommand env args)"

text \<open>The \<open>switch\<close> of the \<open>catch\<close> block, on \<open>error.systemCode()\<close>.\<close>

definition catch_exit_code :: "int \<Rightarrow> int" where
  "catch_exit_code code =
    (if code = ERROR_SERVICE_EXISTS \<or> code = ERROR_SERVICE_DOES_NOT_EXIST
        \<or> code = ERROR_SERVICE_ALREADY_RUNNING \<or> code = ERROR_SERVICE_NOT_ACTIVE then 2
     else if code = ERROR_SERVICE_MARKED_FOR_DELETE
        \<or> code = ERROR_AUTHENTICODE_PUBLISHER_NOT_TRUSTED
        \<or> code = ERROR_AUTHENTICODE_TRUST_NOT_ESTABLISHED then 3
     else 1)"

definition run :: "'w env \<Rightarrow> string list \<Rightarrow> ('w, int) act" where
  "run env args =
    (if length args > 1 then
       bind_act (emit (NewLogger
           (if MATCH_ARG args 1 ''run'' then DaemonLogFile else ConfigLogFile))) (\<lambda>_.
         try_catch (dispatch env args) (\<lambda>error.
           bind_act (emit (Log Critical [Raised error])) (\<lambda>_.
             return_act (catch_exit_code (systemCode error)))))
     else showHelp env)"

subsection \<open>The command an argument vector selects\<close>

text \<open>
  The specification names the branches of \<open>run\<close>: its \<open>Command\<close>. \<open>selectCommand\<close> walks the
  tests of \<open>run\<close> in their order and names the branch taken; \<open>perform\<close> is the operation of
  each branch. Lemma \<open>run_selectCommand\<close> below shows that \<open>run\<close> is \<open>perform\<close> of the
  selected command.
\<close>

datatype Command =
    Run
  | InstallService
  | UninstallService
  | StartService
  | StopService
  | TapInstall
  | TapUninstall
  | TapReinstall
  | TunUninstall
  | TunCreate
  | CalloutInstall
  | CalloutUninstall
  | CalloutReinstall
  | Help
  | Unrecognized

definition selectCommand :: "string list \<Rightarrow> Command" where
  "selectCommand args =
    (if length args > 1 then
      (if MATCH_ARG args 1 ''help'' \<or> MATCH_ARG args 1 ''/?'' then Help
       else if MATCH_ARG args 1 ''run'' then Run
       else if MATCH_ARG args 1 ''install'' then InstallService
       else if MATCH_ARG args 1 ''uninstall'' then UninstallService
       else if MATCH_ARG args 1 ''start'' then StartService
       else if MATCH_ARG args 1 ''stop'' then StopService
       else if MATCH_ARG args 1 ''tap'' \<and> length args > 2 then
         (if MATCH_ARG args 2 ''install'' then TapInstall
          else if MATCH_ARG args 2 ''uninstall'' then TapUninstall
          else if MATCH_ARG args 2 ''reinstall'' then TapReinstall
          else Unrecognized)
       else if MATCH_ARG args 1 ''tun'' \<and> length args > 2 then
         (if MATCH_ARG args 2 ''uninstall'' then TunUninstall
          else if MATCH_ARG args 2 ''create'' then TunCreate
          else Unrecognized)
       else if MATCH_ARG args 1 ''callout'' \<and> length args > 2 then
         (if MATCH_ARG args 2 ''install'' then CalloutInstall
          else if MATCH_ARG args 2 ''uninstall'' then CalloutUninstall
          else if MATCH_ARG args 2 ''reinstall'' then CalloutReinstall
          else Unrecognized)
       else Unrecognized)
     else Help)"

fun perform :: "'w env \<Rightarrow> string list \<Rightarrow> Command \<Rightarrow> ('w, int) act" where
  "perform env args Help = showHelp env"
| "perform env args Run = runDaemon env"
| "perform env args InstallService = extern Service_install (WinService_installService env)"
| "perform env args UninstallService =
     extern Service_uninstall (WinService_uninstallService env)"
| "perform env args StartService = extern Service_start (WinService_startService env)"
| "perform env args StopService = extern Service_stop (WinService_stopService env)"
| "perform env args TapInstall = installTapDriver env (installTapDriver_default_force env)"
| "perform env args TapUninstall = uninstallTapDriver env"
| "perform env args TapReinstall = reinstallTapDriver env"
| "perform env args TunUninstall = uninstallWintunDriver env"
| "perform env args TunCreate = createWintunAdapter env"
| "perform env args CalloutInstall =
     bind_act (installCalloutDriver env) (\<lambda>result.
     bind_act (sendCheckDriverHint env) (\<lambda>_. return_act result))"
| "perform env args CalloutUninstall =
     bind_act (uninstallCalloutDriver env) (\<lambda>result.
     bind_act (sendCheckDriverHint env) (\<lambda>_. return_act result))"
| "perform env args CalloutReinstall =
     bind_act (reinstallCalloutDriver env) (\<lambda>result.
     bind_act (sendCheckDriverHint env) (\<lambda>_. return_act result))"
| "perform env args Unrecognized = unrecognizedCommand env args"

text \<open>
  A case variant of a token: the same token with the case of any of its letters changed.
\<close>

definition toLower :: "char \<Rightarrow> char" where
  "toLower c = (if 65 \<le> (of_char c :: nat) \<and> (of_char c :: nat) \<le> 90
                then char_of (of_char c + 32 :: nat) else c)"

definition toUpper :: "char \<Rightarrow> char" where
  "toUpper c = (if 97 \<le> (of_char c :: nat) \<and> (of_char c :: nat) \<le> 122
                then char_of (of_char c - 32 :: nat) else c)"

definition case_variant :: "string \<Rightarrow> string \<Rightarrow> bool" where
  "case_variant a b \<longleftrightarrow> list_all2 (\<lambda>x y. y = x \<or> y = toUpper x \<or> y = toLower x) a b"

text \<open>The calls of the control client, which tells the running daemon to check the driver.\<close>

fun is_hint :: "event \<Rightarrow> bool" where
  "is_hint (Call (Exec_cmd program arguments)) = True"
| "is_hint ev = False"

subsection \<open>An example environment\<close>

text \<open>
  A small machine to run the console on: a caller that is elevated or not, a service that is
  registered or not, running or not and possibly awaiting deletion, a callout driver that is
  present or not and whose file may be in use, a TAP driver,
  the daemons constructed so far, each in its state, and the number of driver hints the
  control client was asked to deliver (it always exits with status 1). A daemon that is
  started runs until it has stopped, and it takes a stop request as the specification
  describes.
\<close>

record machine = daemon_objects +
  elevated :: bool
  service_registered :: bool
  service_delete_pending :: bool
  service_running :: bool
  tap_present :: bool
  callout_present :: bool
  callout_in_use :: bool
  daemons_made :: nat
  hints_sent :: nat

fun example_status_value :: "DriverStatus \<Rightarrow> int" where
  "example_status_value DriverInstalled = 20"
| "example_status_value DriverInstalledReboot = 21"
| "example_status_value DriverInstallFailed = 22"
| "example_status_value DriverUninstalled = 30"
| "example_status_value DriverUninstalledReboot = 31"
| "example_status_value DriverUninstallFailed = 32"

definition ERROR_ACCESS_DENIED :: int where
  "ERROR_ACCESS_DENIED = 5"

definition example_env :: "machine env" where
  "example_env = \<lparr>
     DriverStatus_value = example_status_value,
     IsWindows10OrGreater = True,
     TapDriverDir = ''tap'',
     WfpCalloutDriverDir = ''wfp_callout'',
     InstallationDir = ''pia'',
     BRAND_CODE = ''pia'',
     PIA_PRODUCT_NAME = ''Private Internet Access'',
     semanticVersion = ''3.5.0'',
     pOpenVPNName = ''OpenVPN'',
     path_append = (\<lambda>a b. a @ ''/'' @ b),
     toNativeSeparators = map (\<lambda>c. if c = CHR ''/'' then CHR 0x5C else c),
     baseName = takeWhile (\<lambda>c. c \<noteq> CHR ''.''),
     installTapDriver_default_force = False,
     WinService_installService = (\<lambda>w.
       if \<not> elevated w then (Inl (Error ERROR_ACCESS_DENIED), w)
       else if service_delete_pending w then (Inl (Error ERROR_SERVICE_MARKED_FOR_DELETE), w)
       else if service_registered w then (Inl (Error ERROR_SERVICE_EXISTS), w)
       else (Inr 0, w\<lparr>service_registered := True\<rparr>)),
     WinService_uninstallService = (\<lambda>w.
       if \<not> service_registered w then (Inl (Error ERROR_SERVICE_DOES_NOT_EXIST), w)
       else (Inr 0, w\<lparr>service_registered := False\<rparr>)),
     WinService_startService = (\<lambda>w.
       if \<not> service_registered w then (Inl (Error ERROR_SERVICE_DOES_NOT_EXIST), w)
       else if service_running w then (Inl (Error ERROR_SERVICE_ALREADY_RUNNING), w)
       else (Inr 0, w\<lparr>service_running := True\<rparr>)),
     WinService_stopService = (\<lambda>w.
       if \<not> service_running w then (Inl (Error ERROR_SERVICE_NOT_ACTIVE), w)
       else (Inr 0, w\<lparr>service_running := False\<rparr>)),
     tap_installTapDriver = (\<lambda>infPath a force b w. (Inr 20, w\<lparr>tap_present := True\<rparr>)),
     tap_uninstallTapDriver = (\<lambda>a b w.
       if tap_present w then (Inr 30, w\<lparr>tap_present := False\<rparr>) else (Inr 32, w)),
     tap_installCalloutDriver = (\<lambda>infPath b w.
       if callout_present w then (Inr 22, w) else (Inr 20, w\<lparr>callout_present := True\<rparr>)),
     tap_uninstallCalloutDriver = (\<lambda>infPath b w.
       if \<not> callout_present w then (Inr 32, w)
       else if callout_in_use w then (Inr 31, w)
       else (Inr 30, w\<lparr>callout_present := False\<rparr>)),
     WintunModule_ctor = (\<lambda>w. (Inr (), w)),
     WintunModule_dtor = (\<lambda>w. w),
     WintunModule_deleteDriver = (\<lambda>w. (Inr True, w)),
     WintunModule_recreateAdapter = (\<lambda>name w. (Inr True, w)),
     Exec_cmd_run = (\<lambda>program arguments w. (1, w\<lparr>hints_sent := Suc (hints_sent w)\<rparr>)),
     WinDaemon_new = (\<lambda>w. (Inr (daemons_made w), w\<lparr>daemons_made := Suc (daemons_made w)\<rparr>)),
     SetConsoleCtrlHandler = (\<lambda>add w. (True, w)),
     WinDaemon_start = (\<lambda>d w. (Inr (), w\<lparr>daemon_phase := (daemon_phase w)(d := Stopped)\<rparr>)),
     WinDaemon_stop = Daemon_stop_spec
   \<rparr>"

definition fresh_machine :: machine where
  "fresh_machine = \<lparr>
     daemon_phase = (\<lambda>d. Idle),
     elevated = True,
     service_registered = False,
     service_delete_pending = False,
     service_running = False,
     tap_present = False,
     callout_present = False,
     callout_in_use = False,
     daemons_made = 0,
     hints_sent = 0
   \<rparr>"

text \<open>The process right after the \<open>WinConsole\<close> object is constructed.\<close>

definition start_state :: "'w \<Rightarrow> 'w state" where
  "start_state w = \<lparr>daemon = None, world = w, trace = []\<rparr>"

section \<open>Properties\<close>

lemmas act_defs = return_act_def bind_act_def try_catch_def emit_def extern_def
  extern_total_def scoped_def

lemmas system_code_defs = ERROR_SERVICE_ALREADY_RUNNING_def ERROR_SERVICE_DOES_NOT_EXIST_def
  ERROR_SERVICE_NOT_ACTIVE_def ERROR_SERVICE_MARKED_FOR_DELETE_def ERROR_SERVICE_EXISTS_def
  ERROR_AUTHENTICODE_TRUST_NOT_ESTABLISHED_def ERROR_AUTHENTICODE_PUBLISHER_NOT_TRUSTED_def

lemmas ctrl_defs = CTRL_C_EVENT_def CTRL_BREAK_EVENT_def CTRL_CLOSE_EVENT_def
  CTRL_LOGOFF_EVENT_def CTRL_SHUTDOWN_EVENT_def

lemmas example_defs = example_env_def fresh_machine_def start_state_def ERROR_ACCESS_DENIED_def

lemmas run_defs = run_def dispatch_def MATCH_ARG_def foldCase_def catch_exit_code_def
  showHelp_def unrecognizedCommand_def sendCheckDriverHint_def

lemmas driver_defs = installTapDriver_def uninstallTapDriver_def reinstallTapDriver_def
  installCalloutDriver_def uninstallCalloutDriver_def reinstallCalloutDriver_def
  uninstallWintunDriver_def uninstallWintunDriver_status_def createWintunAdapter_def
  createWintunAdapter_status_def global_installTapDriver_def global_uninstallTapDriver_def
  global_installCalloutDriver_def global_uninstallCalloutDriver_def

subsection \<open>Exit codes of a raised error\<close>

lemma catch_exit_code_cases:
  "(code \<in> {ERROR_SERVICE_EXISTS, ERROR_SERVICE_DOES_NOT_EXIST, ERROR_SERVICE_ALREADY_RUNNING,
       ERROR_SERVICE_NOT_ACTIVE} \<longrightarrow> catch_exit_code code = 2)
   \<and> (code \<in> {ERROR_SERVICE_MARKED_FOR_DELETE, ERROR_AUTHENTICODE_PUBLISHER_NOT_TRUSTED,
       ERROR_AUTHENTICODE_TRUST_NOT_ESTABLISHED} \<longrightarrow> catch_exit_code code = 3)
   \<and> (code \<notin> {ERROR_SERVICE_EXISTS, ERROR_SERVICE_DOES_NOT_EXIST, ERROR_SERVICE_ALREADY_RUNNING,
       ERROR_SERVICE_NOT_ACTIVE, ERROR_SERVICE_MARKED_FOR_DELETE,
       ERROR_AUTHENTICODE_PUBLISHER_NOT_TRUSTED, ERROR_AUTHENTICODE_TRUST_NOT_ESTABLISHED}
      \<longrightarrow> catch_exit_code code = 1)"
  by (auto simp: catch_exit_code_def system_code_defs)

lemma run_raised:
  assumes "1 < length args"
    and "dispatch env args (s\<lparr>trace := trace s @ [NewLogger
           (if MATCH_ARG args 1 ''run'' then DaemonLogFile else ConfigLogFile)]\<rparr>) = (Inl e, s1)"
  shows "run env args s =
           (Inr (catch_exit_code (systemCode e)), s1\<lparr>trace := trace s1 @ [Log Critical [Raised e]]\<rparr>)"
  using assms by (simp add: run_def act_defs)

lemma run_returned:
  assumes "1 < length args"
    and "dispatch env args (s\<lparr>trace := trace s @ [NewLogger
           (if MATCH_ARG args 1 ''run'' then DaemonLogFile else ConfigLogFile)]\<rparr>) = (Inr r, s2)"
  shows "run env args s = (Inr r, s2)"
  using assms by (simp add: run_def act_defs)

text \<open>
  C1. With at least two tokens, \<open>run\<close> opens the log and runs the dispatch inside the
  \<open>try\<close> block, from the state \<open>s0\<close>. When the dispatch raises an error \<open>e\<close>, \<open>run\<close> logs it
  and returns 2 for the system codes service-exists, service-does-not-exist,
  service-already-running and service-not-active, 3 for service-marked-for-delete and the
  two Authenticode trust codes, and 1 for every other code. When the dispatch returns \<open>r\<close>,
  \<open>run\<close> returns \<open>r\<close> and leaves the state as the command left it: nothing is logged and
  no code is mapped.
\<close>

theorem run_exit_code_of_raised_error:
  assumes "1 < length args"
    and "s0 = s\<lparr>trace := trace s @ [NewLogger
           (if MATCH_ARG args 1 ''run'' then DaemonLogFile else ConfigLogFile)]\<rparr>"
  shows "(dispatch env args s0 = (Inl e, s1) \<longrightarrow>
            snd (run env args s) = s1\<lparr>trace := trace s1 @ [Log Critical [Raised e]]\<rparr>
          \<and> (systemCode e \<in> {ERROR_SERVICE_EXISTS, ERROR_SERVICE_DOES_NOT_EXIST,
                ERROR_SERVICE_ALREADY_RUNNING, ERROR_SERVICE_NOT_ACTIVE}
              \<longrightarrow> fst (run env args s) = Inr 2)
          \<and> (systemCode e \<in> {ERROR_SERVICE_MARKED_FOR_DELETE,
                ERROR_AUTHENTICODE_PUBLISHER_NOT_TRUSTED, ERROR_AUTHENTICODE_TRUST_NOT_ESTABLISHED}
              \<longrightarrow> fst (run env args s) = Inr 3)
          \<and> (systemCode e \<notin> {ERROR_SERVICE_EXISTS, ERROR_SERVICE_DOES_NOT_EXIST,
                ERROR_SERVICE_ALREADY_RUNNING, ERROR_SERVICE_NOT_ACTIVE,
                ERROR_SERVICE_MARKED_FOR_DELETE, ERROR_AUTHENTICODE_PUBLISHER_NOT_TRUSTED,
                ERROR_AUTHENTICODE_TRUST_NOT_ESTABLISHED}
              \<longrightarrow> fst (run env args s) = Inr 1))
       \<and> (dispatch env args s0 = (Inr r, s2) \<longrightarrow> run env args s = (Inr r, s2))"
proof (intro conjI impI)
  assume d: "dispatch env args s0 = (Inl e, s1)"
  have r: "run env args s =
      (Inr (catch_exit_code (systemCode e)), s1\<lparr>trace := trace s1 @ [Log Critical [Raised e]]\<rparr>)"
    using assms d run_raised [of args env s e s1] by simp
  show "snd (run env args s) = s1\<lparr>trace := trace s1 @ [Log Critical [Raised e]]\<rparr>"
    using r by simp
  show "fst (run env args s) = Inr 2"
    if "systemCode e \<in> {ERROR_SERVICE_EXISTS, ERROR_SERVICE_DOES_NOT_EXIST,
          ERROR_SERVICE_ALREADY_RUNNING, ERROR_SERVICE_NOT_ACTIVE}"
    using that r catch_exit_code_cases [of "systemCode e"] by simp
  show "fst (run env args s) = Inr 3"
    if "systemCode e \<in> {ERROR_SERVICE_MARKED_FOR_DELETE,
          ERROR_AUTHENTICODE_PUBLISHER_NOT_TRUSTED, ERROR_AUTHENTICODE_TRUST_NOT_ESTABLISHED}"
    using that r catch_exit_code_cases [of "systemCode e"] by simp
  show "fst (run env args s) = Inr 1"
    if "systemCode e \<notin> {ERROR_SERVICE_EXISTS, ERROR_SERVICE_DOES_NOT_EXIST,
          ERROR_SERVICE_ALREADY_RUNNING, ERROR_SERVICE_NOT_ACTIVE,
          ERROR_SERVICE_MARKED_FOR_DELETE, ERROR_AUTHENTICODE_PUBLISHER_NOT_TRUSTED,
          ERROR_AUTHENTICODE_TRUST_NOT_ESTABLISHED}"
    using that r catch_exit_code_cases [of "systemCode e"] by simp
next
  assume "dispatch env args s0 = (Inr r, s2)"
  then show "run env args s = (Inr r, s2)"
    using assms run_returned [of args env s r s2] by simp
qed

text \<open>
  On the example machine: installing the service a second time raises service-exists and
  exits with 2, installing it while its deletion is pending exits with 3, installing it
  without elevation (access denied, an unlisted code) exits with 1, and installing it on a
  fresh machine returns the controller's 0.
\<close>

theorem run_exit_code_of_raised_error_witness:
  "fst (run example_env [''pia-service.exe'', ''install'']
          (start_state (fresh_machine\<lparr>service_registered := True\<rparr>))) = Inr 2
   \<and> fst (run example_env [''pia-service.exe'', ''install'']
          (start_state (fresh_machine\<lparr>service_delete_pending := True\<rparr>))) = Inr 3
   \<and> fst (run example_env [''pia-service.exe'', ''install'']
          (start_state (fresh_machine\<lparr>elevated := False\<rparr>))) = Inr 1
   \<and> fst (run example_env [''pia-service.exe'', ''install''] (start_state fresh_machine)) = Inr 0"
proof -
  let ?args = "[''pia-service.exe'', ''install'']"
  let ?log = "\<lambda>s::machine state. s\<lparr>trace := trace s @ [NewLogger
      (if MATCH_ARG ?args 1 ''run'' then DaemonLogFile else ConfigLogFile)]\<rparr>"
  have len: "1 < length ?args" by simp
  let ?s2 = "start_state (fresh_machine\<lparr>service_registered := True\<rparr>)"
  let ?s3 = "start_state (fresh_machine\<lparr>service_delete_pending := True\<rparr>)"
  let ?s1 = "start_state (fresh_machine\<lparr>elevated := False\<rparr>)"
  let ?s0 = "start_state fresh_machine"
  have d2: "dispatch example_env ?args (?log ?s2)
      = (Inl (Error ERROR_SERVICE_EXISTS), (?log ?s2)\<lparr>trace := trace (?log ?s2) @ [Call Service_install]\<rparr>)"
    by (simp add: run_defs act_defs example_defs)
  have d3: "dispatch example_env ?args (?log ?s3)
      = (Inl (Error ERROR_SERVICE_MARKED_FOR_DELETE),
         (?log ?s3)\<lparr>trace := trace (?log ?s3) @ [Call Service_install]\<rparr>)"
    by (simp add: run_defs act_defs example_defs)
  have d1: "dispatch example_env ?args (?log ?s1)
      = (Inl (Error 5), (?log ?s1)\<lparr>trace := trace (?log ?s1) @ [Call Service_install]\<rparr>)"
    by (simp add: run_defs act_defs example_defs)
  have d0: "dispatch example_env ?args (?log ?s0)
      = (Inr 0, (?log ?s0)\<lparr>world := fresh_machine\<lparr>service_registered := True\<rparr>,
                   trace := trace (?log ?s0) @ [Call Service_install]\<rparr>)"
    by (simp add: run_defs act_defs example_defs)
  note t = run_exit_code_of_raised_error [OF len refl]
  have "fst (run example_env ?args ?s2) = Inr 2"
    using t [where env = example_env and s = ?s2 and e = "Error ERROR_SERVICE_EXISTS"] d2
    by simp
  moreover have "fst (run example_env ?args ?s3) = Inr 3"
    using t [where env = example_env and s = ?s3 and e = "Error ERROR_SERVICE_MARKED_FOR_DELETE"] d3
    by simp
  moreover have "fst (run example_env ?args ?s1) = Inr 1"
    using t [where env = example_env and s = ?s1 and e = "Error 5"] d1
    by (simp add: system_code_defs)
  moreover have "fst (run example_env ?args ?s0) = Inr 0"
    using t [where env = example_env and s = ?s0 and r = 0] d0
    by simp
  ultimately show ?thesis by simp
qed

subsection \<open>Console control events\<close>

text \<open>
  C8. On Ctrl-C and Ctrl-Break the handler prints the notice, hands \<open>stopDaemon\<close> to the
  console object and returns TRUE; on close, logoff and shutdown it does the same and
  returns FALSE; on any other event it returns FALSE and does nothing. In no case does the
  handler run the stop itself: the daemon pointer and the world are as before, and the only
  new entries of the trace are the notice and the posted call.
\<close>

theorem ctrlHandler_cases:
  "(dwCtrlType = CTRL_C_EVENT \<or> dwCtrlType = CTRL_BREAK_EVENT \<longrightarrow>
      ctrlHandler dwCtrlType s =
        (True, s\<lparr>trace := trace s @ [Print stderr [''Terminating...''], InvokeMethod_stopDaemon]\<rparr>))
   \<and> (dwCtrlType = CTRL_CLOSE_EVENT \<or> dwCtrlType = CTRL_LOGOFF_EVENT
        \<or> dwCtrlType = CTRL_SHUTDOWN_EVENT \<longrightarrow>
      ctrlHandler dwCtrlType s =
        (False, s\<lparr>trace := trace s @ [Print stderr [''Terminating...''], InvokeMethod_stopDaemon]\<rparr>))
   \<and> (dwCtrlType \<notin> {CTRL_C_EVENT, CTRL_BREAK_EVENT, CTRL_CLOSE_EVENT, CTRL_LOGOFF_EVENT,
          CTRL_SHUTDOWN_EVENT} \<longrightarrow>
      ctrlHandler dwCtrlType s = (False, s))"
  by (auto simp: ctrlHandler_def ctrl_defs)

text \<open>Ctrl-Break (1), logoff (5) and the unassigned event number 3 on a fresh process.\<close>

theorem ctrlHandler_cases_witness:
  "ctrlHandler 1 (start_state fresh_machine) =
      (True, \<lparr>daemon = None, world = fresh_machine,
              trace = [Print stderr [''Terminating...''], InvokeMethod_stopDaemon]\<rparr>)
   \<and> ctrlHandler 5 (start_state fresh_machine) =
      (False, \<lparr>daemon = None, world = fresh_machine,
               trace = [Print stderr [''Terminating...''], InvokeMethod_stopDaemon]\<rparr>)
   \<and> ctrlHandler 3 (start_state fresh_machine) = (False, start_state fresh_machine)"
  using ctrlHandler_cases [of 1 "start_state fresh_machine"]
    ctrlHandler_cases [of 5 "start_state fresh_machine"]
    ctrlHandler_cases [of 3 "start_state fresh_machine"]
  by (simp add: ctrl_defs start_state_def)

subsection \<open>Reinstalling the callout driver\<close>

text \<open>
  C2. Let the uninstall phase return \<open>r\<close> and leave the world \<open>w1\<close>. If \<open>r\<close> is the value of
  \<open>DriverUninstalledReboot\<close>, \<open>reinstallCalloutDriver\<close> returns \<open>r\<close>; the world is still
  \<open>w1\<close> and the trace holds the uninstall call and two log lines, so the install phase was
  not invoked. For every other \<open>r\<close> the install phase is invoked on \<open>w1\<close>, and what it
  returns (or raises) is what \<open>reinstallCalloutDriver\<close> returns (or raises).
\<close>

theorem reinstallCalloutDriver_reboot_gate:
  assumes "tap_uninstallCalloutDriver env (getWfpCalloutInfPath env) False (world s) = (Inr r, w1)"
  shows "(r = DriverStatus_value env DriverUninstalledReboot \<longrightarrow>
            reinstallCalloutDriver env s =
              (Inr (DriverStatus_value env DriverUninstalledReboot),
               s\<lparr>world := w1,
                 trace := trace s @
                   [Call (Callout_uninstall (getWfpCalloutInfPath env) False),
                    Log Info [Text ''Uninstall result:'', Number r],
                    Log Info [Text
                      ''Restart the computer to complete uninstallation, then install again.'']]\<rparr>))
       \<and> (r \<noteq> DriverStatus_value env DriverUninstalledReboot \<longrightarrow>
            reinstallCalloutDriver env s =
              (fst (tap_installCalloutDriver env (getWfpCalloutInfPath env) False w1),
               s\<lparr>world := snd (tap_installCalloutDriver env (getWfpCalloutInfPath env) False w1),
                 trace := trace s @
                   [Call (Callout_uninstall (getWfpCalloutInfPath env) False),
                    Log Info [Text ''Uninstall result:'', Number r],
                    Call (Callout_install (getWfpCalloutInfPath env) False)]\<rparr>))"
  using assms
  by (simp add: reinstallCalloutDriver_def global_uninstallCalloutDriver_def
      global_installCalloutDriver_def act_defs split: prod.split)

text \<open>
  On the example machine: with the driver file in use the uninstall returns 31 (reboot
  required) and so does the reinstall, the driver staying as it was; with no driver present
  the uninstall returns 32 (failed) and the reinstall returns the install's 20.
\<close>

theorem reinstallCalloutDriver_reboot_gate_witness:
  "fst (reinstallCalloutDriver example_env
          (start_state (fresh_machine\<lparr>callout_present := True, callout_in_use := True\<rparr>))) = Inr 31
   \<and> operations (trace (snd (reinstallCalloutDriver example_env
          (start_state (fresh_machine\<lparr>callout_present := True, callout_in_use := True\<rparr>)))))
       = [Call (Callout_uninstall (getWfpCalloutInfPath example_env) False)]
   \<and> fst (reinstallCalloutDriver example_env (start_state fresh_machine)) = Inr 20
   \<and> operations (trace (snd (reinstallCalloutDriver example_env (start_state fresh_machine))))
       = [Call (Callout_uninstall (getWfpCalloutInfPath example_env) False),
          Call (Callout_install (getWfpCalloutInfPath example_env) False)]"
proof -
  let ?busy = "fresh_machine\<lparr>callout_present := True, callout_in_use := True\<rparr>"
  have u1: "tap_uninstallCalloutDriver example_env (getWfpCalloutInfPath example_env) False
      (world (start_state ?busy)) = (Inr 31, ?busy)"
    by (simp add: example_defs)
  have u2: "tap_uninstallCalloutDriver example_env (getWfpCalloutInfPath example_env) False
      (world (start_state fresh_machine)) = (Inr 32, fresh_machine)"
    by (simp add: example_defs)
  have v: "DriverStatus_value example_env DriverUninstalledReboot = 31"
    by (simp add: example_defs)
  have i: "tap_installCalloutDriver example_env (getWfpCalloutInfPath example_env) False
      fresh_machine = (Inr 20, fresh_machine\<lparr>callout_present := True\<rparr>)"
    by (simp add: example_defs)
  show ?thesis
    using reinstallCalloutDriver_reboot_gate [OF u1] reinstallCalloutDriver_reboot_gate [OF u2] v i
    by (simp add: operations_def start_state_def)
qed

subsection \<open>Reinstalling the TAP driver\<close>

text \<open>
  C7. Whatever value \<open>r\<close> the uninstall phase returns, \<open>reinstallTapDriver\<close> goes on to the
  install phase, with \<open>force = true\<close>, on the world the uninstall left; \<open>r\<close> appears nowhere
  in the outcome, which is the install phase's own (its return value, or the error it
  raises). The trace shows the order: uninstall, then install.
\<close>

theorem reinstallTapDriver_ignores_uninstall:
  assumes "tap_uninstallTapDriver env False False (world s) = (Inr r, w1)"
  shows "reinstallTapDriver env s =
           (fst (tap_installTapDriver env (getInfPath env) False True False w1),
            s\<lparr>world := snd (tap_installTapDriver env (getInfPath env) False True False w1),
              trace := trace s @
                [Call (Tap_uninstall False False),
                 Call (Tap_install (getInfPath env) False True False)]\<rparr>)"
  using assms
  by (simp add: reinstallTapDriver_def global_uninstallTapDriver_def
      global_installTapDriver_def act_defs split: prod.split)

text \<open>
  On the example machine with no TAP driver installed the uninstall fails (32); the
  reinstall installs all the same and returns the install's 20.
\<close>

theorem reinstallTapDriver_ignores_uninstall_witness:
  "reinstallTapDriver example_env (start_state fresh_machine) =
     (Inr 20,
      \<lparr>daemon = None, world = fresh_machine\<lparr>tap_present := True\<rparr>,
       trace = [Call (Tap_uninstall False False),
                Call (Tap_install (getInfPath example_env) False True False)]\<rparr>)"
proof -
  have u: "tap_uninstallTapDriver example_env False False (world (start_state fresh_machine))
      = (Inr 32, fresh_machine)"
    by (simp add: example_defs)
  have i: "tap_installTapDriver example_env (getInfPath example_env) False True False
      fresh_machine = (Inr 20, fresh_machine\<lparr>tap_present := True\<rparr>)"
    by (simp add: example_defs)
  show ?thesis
    using reinstallTapDriver_ignores_uninstall [OF u] i
    by (simp add: start_state_def)
qed

subsection \<open>The WinTUN operations\<close>

text \<open>
  C10. Once the WinTUN module is loaded and the deletion has answered,
  \<open>uninstallWintunDriver\<close> returns \<open>DriverUninstallFailed\<close> when the deletion failed and
  \<open>DriverUninstalled\<close> when it succeeded; likewise \<open>createWintunAdapter\<close> returns
  \<open>DriverInstallFailed\<close> without an adapter and \<open>DriverInstalled\<close> with one. Neither
  operation ever returns \<open>DriverUninstalledReboot\<close> or \<open>DriverInstalledReboot\<close>: the
  reboot flags are local, set to false and never assigned.
\<close>

theorem wintun_operations_never_report_reboot:
  "(WintunModule_ctor env (world s) = (Inr (), w1) \<and>
      WintunModule_deleteDriver env w1 = (Inr deleted, w2) \<longrightarrow>
        fst (uninstallWintunDriver_status env s)
          = Inr (if deleted then DriverUninstalled else DriverUninstallFailed)
      \<and> fst (uninstallWintunDriver env s)
          = Inr (DriverStatus_value env
                   (if deleted then DriverUninstalled else DriverUninstallFailed)))
   \<and> (WintunModule_ctor env (world s) = (Inr (), w1) \<and>
      WintunModule_recreateAdapter env (pOpenVPNName env) w1 = (Inr adapter, w3) \<longrightarrow>
        fst (createWintunAdapter_status env s)
          = Inr (if adapter then DriverInstalled else DriverInstallFailed)
      \<and> fst (createWintunAdapter env s)
          = Inr (DriverStatus_value env
                   (if adapter then DriverInstalled else DriverInstallFailed)))
   \<and> (fst (uninstallWintunDriver_status env s)
        \<in> {Inr DriverUninstallFailed, Inr DriverUninstalled} \<union> range Inl)
   \<and> (fst (createWintunAdapter_status env s)
        \<in> {Inr DriverInstallFailed, Inr DriverInstalled} \<union> range Inl)
   \<and> fst (uninstallWintunDriver_status env s) \<noteq> Inr DriverUninstalledReboot
   \<and> fst (uninstallWintunDriver_status env s) \<noteq> Inr DriverInstalledReboot
   \<and> fst (createWintunAdapter_status env s) \<noteq> Inr DriverInstalledReboot
   \<and> fst (createWintunAdapter_status env s) \<noteq> Inr DriverUninstalledReboot"
  by (auto simp: driver_defs act_defs split: prod.splits sum.splits)

text \<open>On the example machine the deletion and the creation succeed.\<close>

theorem wintun_operations_never_report_reboot_witness:
  "fst (uninstallWintunDriver_status example_env (start_state fresh_machine)) = Inr DriverUninstalled
   \<and> fst (uninstallWintunDriver example_env (start_state fresh_machine)) = Inr 30
   \<and> fst (createWintunAdapter_status example_env (start_state fresh_machine)) = Inr DriverInstalled
   \<and> fst (createWintunAdapter example_env (start_state fresh_machine)) = Inr 20"
proof -
  have c: "WintunModule_ctor example_env (world (start_state fresh_machine)) = (Inr (), fresh_machine)"
    by (simp add: example_defs)
  have d: "WintunModule_deleteDriver example_env fresh_machine = (Inr True, fresh_machine)"
    by (simp add: example_defs)
  have a: "WintunModule_recreateAdapter example_env (pOpenVPNName example_env) fresh_machine
      = (Inr True, fresh_machine)"
    by (simp add: example_defs)
  have v: "DriverStatus_value example_env = example_status_value"
    by (simp add: example_defs)
  show ?thesis
    using wintun_operations_never_report_reboot
      [of example_env "start_state fresh_machine" fresh_machine True fresh_machine True fresh_machine]
      c d a v
    by simp
qed

subsection \<open>Matching\<close>

lemma compare_CaseInsensitive_zero_iff:
  "compare_CaseInsensitive a b = 0 \<longleftrightarrow> map foldCase a = map foldCase b"
  by (induction a b rule: compare_CaseInsensitive.induct) (auto simp: Let_def)

lemma MATCH_ARG_iff: "MATCH_ARG args i text \<longleftrightarrow> map foldCase (args ! i) = map foldCase text"
  using compare_CaseInsensitive_zero_iff [of "args ! i" "text"]
  by (auto simp: MATCH_ARG_def)

lemma run_selectCommand:
  "run env args =
    (if length args > 1 then
       bind_act (emit (NewLogger
           (if MATCH_ARG args 1 ''run'' then DaemonLogFile else ConfigLogFile))) (\<lambda>_.
         try_catch (perform env args (selectCommand args)) (\<lambda>error.
           bind_act (emit (Log Critical [Raised error])) (\<lambda>_.
             return_act (catch_exit_code (systemCode error)))))
     else perform env args (selectCommand args))"
  by (simp add: run_def dispatch_def selectCommand_def)

lemma selectCommand_unmatched:
  assumes "\<forall>c \<in> set [''help'', ''/?'', ''run'', ''install'', ''uninstall'', ''start'', ''stop'',
                     ''tap'', ''tun'', ''callout'']. \<not> MATCH_ARG args 1 c"
    and "1 < length args"
  shows "selectCommand args = Unrecognized"
  using assms by (simp add: selectCommand_def)

lemma match_tap_only:
  assumes "MATCH_ARG args 1 ''tap''"
  shows "\<not> MATCH_ARG args 1 ''help''" "\<not> MATCH_ARG args 1 ''/?''" "\<not> MATCH_ARG args 1 ''run''"
    "\<not> MATCH_ARG args 1 ''install''" "\<not> MATCH_ARG args 1 ''uninstall''"
    "\<not> MATCH_ARG args 1 ''start''" "\<not> MATCH_ARG args 1 ''stop''"
  using assms by (simp_all add: MATCH_ARG_iff foldCase_def)

lemma match_tun_only:
  assumes "MATCH_ARG args 1 ''tun''"
  shows "\<not> MATCH_ARG args 1 ''help''" "\<not> MATCH_ARG args 1 ''/?''" "\<not> MATCH_ARG args 1 ''run''"
    "\<not> MATCH_ARG args 1 ''install''" "\<not> MATCH_ARG args 1 ''uninstall''"
    "\<not> MATCH_ARG args 1 ''start''" "\<not> MATCH_ARG args 1 ''stop''"
    "\<not> MATCH_ARG args 1 ''tap''"
  using assms by (simp_all add: MATCH_ARG_iff foldCase_def)

lemma match_callout_only:
  assumes "MATCH_ARG args 1 ''callout''"
  shows "\<not> MATCH_ARG args 1 ''help''" "\<not> MATCH_ARG args 1 ''/?''" "\<not> MATCH_ARG args 1 ''run''"
    "\<not> MATCH_ARG args 1 ''install''" "\<not> MATCH_ARG args 1 ''uninstall''"
    "\<not> MATCH_ARG args 1 ''start''" "\<not> MATCH_ARG args 1 ''stop''"
    "\<not> MATCH_ARG args 1 ''tap''" "\<not> MATCH_ARG args 1 ''tun''"
  using assms by (simp_all add: MATCH_ARG_iff foldCase_def)

lemma selectCommand_tap:
  assumes "MATCH_ARG args 1 ''tap''"
    and "length args = 2 \<or>
         (\<forall>a \<in> set [''install'', ''uninstall'', ''reinstall'']. \<not> MATCH_ARG args 2 a)"
    and "1 < length args"
  shows "selectCommand args = Unrecognized"
  using assms match_tap_only [OF assms(1)]
  by (auto simp: selectCommand_def)

lemma selectCommand_tun:
  assumes "MATCH_ARG args 1 ''tun''"
    and "length args = 2 \<or> (\<forall>a \<in> set [''uninstall'', ''create'']. \<not> MATCH_ARG args 2 a)"
    and "1 < length args"
  shows "selectCommand args = Unrecognized"
  using assms match_tun_only [OF assms(1)]
  by (auto simp: selectCommand_def)

lemma selectCommand_callout:
  assumes "MATCH_ARG args 1 ''callout''"
    and "length args = 2 \<or>
         (\<forall>a \<in> set [''install'', ''uninstall'', ''reinstall'']. \<not> MATCH_ARG args 2 a)"
    and "1 < length args"
  shows "selectCommand args = Unrecognized"
  using assms match_callout_only [OF assms(1)]
  by (auto simp: selectCommand_def)

subsection \<open>No command\<close>

text \<open>
  C5, as the code has it. With fewer than two tokens \<open>run\<close> takes the \<open>else\<close> branch of
  \<open>args.count() > 1\<close>: it prints the usage text and returns 0. The command is \<open>Help\<close>, no
  log is opened, and no operation is invoked.
\<close>

theorem run_without_command_shows_help:
  assumes "length args < 2"
  shows "run env args s = (Inr 0, s\<lparr>trace := trace s @ [Print stdout (help_text env)]\<rparr>)
       \<and> selectCommand args = Help
       \<and> operations (trace (snd (run env args s))) = operations (trace s)
       \<and> world (snd (run env args s)) = world s"
  using assms by (simp add: run_def showHelp_def selectCommand_def act_defs operations_def)

theorem run_without_command_shows_help_witness:
  "run example_env [''pia-service.exe''] (start_state fresh_machine) =
     (Inr 0, \<lparr>daemon = None, world = fresh_machine,
              trace = [Print stdout (help_text example_env)]\<rparr>)
   \<and> run example_env [] (start_state fresh_machine) =
     (Inr 0, \<lparr>daemon = None, world = fresh_machine,
              trace = [Print stdout (help_text example_env)]\<rparr>)"
  using run_without_command_shows_help [of "[''pia-service.exe'']" example_env "start_state fresh_machine"]
    run_without_command_shows_help [of "[]" example_env "start_state fresh_machine"]
  by (simp add: start_state_def)

text \<open>
  C5 as stated fails: on the program name alone \<open>run\<close> returns 0, not 1, and the command
  is \<open>Help\<close>, not \<open>Unrecognized\<close>.
\<close>

theorem run_without_command_counterexample:
  "fst (run example_env [''pia-service.exe''] (start_state fresh_machine)) = Inr 0
   \<and> fst (run example_env [''pia-service.exe''] (start_state fresh_machine)) \<noteq> Inr 1
   \<and> selectCommand [''pia-service.exe''] \<noteq> Unrecognized"
  by (simp add: run_def showHelp_def selectCommand_def act_defs)

subsection \<open>Unrecognized commands\<close>

text \<open>
  C4. Let there be at least two tokens, and let token 1 match none of the ten command
  words, or match \<open>tap\<close>, \<open>tun\<close> or \<open>callout\<close> with token 2 absent or matching none of the
  sub-actions of that group. Then \<open>run\<close> opens the setup log, logs the offending tokens
  (\<open>args.mid(1)\<close>) as critical, prints the usage hint and returns 1. The world is unchanged
  and the trace gains no operation.
\<close>

theorem run_unrecognized_command:
  assumes "2 \<le> length args"
    and "(\<forall>c \<in> set [''help'', ''/?'', ''run'', ''install'', ''uninstall'', ''start'', ''stop'',
                     ''tap'', ''tun'', ''callout'']. \<not> MATCH_ARG args 1 c)
       \<or> (MATCH_ARG args 1 ''tap'' \<and>
            (length args = 2 \<or>
             (\<forall>a \<in> set [''install'', ''uninstall'', ''reinstall'']. \<not> MATCH_ARG args 2 a)))
       \<or> (MATCH_ARG args 1 ''tun'' \<and>
            (length args = 2 \<or> (\<forall>a \<in> set [''uninstall'', ''create'']. \<not> MATCH_ARG args 2 a)))
       \<or> (MATCH_ARG args 1 ''callout'' \<and>
            (length args = 2 \<or>
             (\<forall>a \<in> set [''install'', ''uninstall'', ''reinstall'']. \<not> MATCH_ARG args 2 a)))"
  shows "run env args s =
           (Inr 1, s\<lparr>trace := trace s @
              [NewLogger ConfigLogFile,
               Log Critical [Text ''Unrecognized command:'', Tokens (drop 1 args)],
               Print stdout
                 [''Unrecognized command; type '' @ [CHR 0x27] @ baseName env (args ! 0)
                    @ '' help'' @ [CHR 0x27] @ '' for a list of available commands.'']]\<rparr>)
       \<and> selectCommand args = Unrecognized
       \<and> operations (trace (snd (run env args s))) = operations (trace s)
       \<and> world (snd (run env args s)) = world s"
proof -
  have len: "1 < length args"
    using assms(1) by simp
  have sel: "selectCommand args = Unrecognized"
    using assms(2) selectCommand_unmatched [OF _ len] selectCommand_tap [OF _ _ len]
      selectCommand_tun [OF _ _ len] selectCommand_callout [OF _ _ len]
    by blast
  have norun: "\<not> MATCH_ARG args 1 ''run''"
    using assms(2) match_tap_only(3) [of args] match_tun_only(3) [of args]
      match_callout_only(3) [of args]
    by auto
  have r: "run env args s =
           (Inr 1, s\<lparr>trace := trace s @
              [NewLogger ConfigLogFile,
               Log Critical [Text ''Unrecognized command:'', Tokens (drop 1 args)],
               Print stdout
                 [''Unrecognized command; type '' @ [CHR 0x27] @ baseName env (args ! 0)
                    @ '' help'' @ [CHR 0x27] @ '' for a list of available commands.'']]\<rparr>)"
    unfolding run_selectCommand sel
    using norun len by (simp add: unrecognizedCommand_def act_defs)
  show ?thesis
    using r sel by (simp add: operations_def)
qed

text \<open>An unknown word, \<open>tap\<close> with no sub-action, and \<open>callout\<close> with an unknown one.\<close>

theorem run_unrecognized_command_witness:
  "fst (run example_env [''pia-service.exe'', ''frobnicate''] (start_state fresh_machine)) = Inr 1
   \<and> fst (run example_env [''pia-service.exe'', ''TAP''] (start_state fresh_machine)) = Inr 1
   \<and> fst (run example_env [''pia-service.exe'', ''callout'', ''remove'']
            (start_state fresh_machine)) = Inr 1
   \<and> trace (snd (run example_env [''pia-service.exe'', ''callout'', ''remove'']
            (start_state fresh_machine))) =
       [NewLogger ConfigLogFile,
        Log Critical [Text ''Unrecognized command:'', Tokens [''callout'', ''remove'']],
        Print stdout
          [''Unrecognized command; type '' @ [CHR 0x27] @ ''pia-service'' @ '' help''
             @ [CHR 0x27] @ '' for a list of available commands.'']]"
proof -
  have a: "fst (run example_env [''pia-service.exe'', ''frobnicate''] (start_state fresh_machine)) = Inr 1"
    using run_unrecognized_command
      [of "[''pia-service.exe'', ''frobnicate'']" example_env "start_state fresh_machine"]
    by (simp add: MATCH_ARG_def foldCase_def)
  have b: "fst (run example_env [''pia-service.exe'', ''TAP''] (start_state fresh_machine)) = Inr 1"
    using run_unrecognized_command
      [of "[''pia-service.exe'', ''TAP'']" example_env "start_state fresh_machine"]
    by (simp add: MATCH_ARG_def foldCase_def)
  have c: "run example_env [''pia-service.exe'', ''callout'', ''remove''] (start_state fresh_machine)
      = (Inr 1, (start_state fresh_machine)\<lparr>trace := trace (start_state fresh_machine) @
              [NewLogger ConfigLogFile,
               Log Critical [Text ''Unrecognized command:'',
                 Tokens (drop 1 [''pia-service.exe'', ''callout'', ''remove''])],
               Print stdout
                 [''Unrecognized command; type '' @ [CHR 0x27]
                    @ baseName example_env ([''pia-service.exe'', ''callout'', ''remove''] ! 0)
                    @ '' help'' @ [CHR 0x27] @ '' for a list of available commands.'']]\<rparr>)"
    using run_unrecognized_command
      [of "[''pia-service.exe'', ''callout'', ''remove'']" example_env "start_state fresh_machine"]
    by (simp add: MATCH_ARG_def foldCase_def)
  show ?thesis
    using a b c by (simp add: start_state_def example_env_def)
qed

subsection \<open>The callout commands and the driver hint\<close>

lemma match_excludes:
  assumes "MATCH_ARG args i a" and "map foldCase a \<noteq> map foldCase b"
  shows "\<not> MATCH_ARG args i b"
  using assms by (simp add: MATCH_ARG_iff)

lemma callout_operations_send_no_hint:
  "filter is_hint (trace (snd (installCalloutDriver env s))) = filter is_hint (trace s)"
  "filter is_hint (trace (snd (uninstallCalloutDriver env s))) = filter is_hint (trace s)"
  "filter is_hint (trace (snd (reinstallCalloutDriver env s))) = filter is_hint (trace s)"
  by (auto simp: installCalloutDriver_def uninstallCalloutDriver_def reinstallCalloutDriver_def
      global_installCalloutDriver_def global_uninstallCalloutDriver_def act_defs
      split: prod.splits sum.splits)

lemma selectCommand_callout_actions:
  assumes "2 < length args" and "MATCH_ARG args 1 ''callout''"
  shows "MATCH_ARG args 2 ''install'' \<Longrightarrow> selectCommand args = CalloutInstall"
    and "MATCH_ARG args 2 ''uninstall'' \<Longrightarrow> selectCommand args = CalloutUninstall"
    and "MATCH_ARG args 2 ''reinstall'' \<Longrightarrow> selectCommand args = CalloutReinstall"
proof -
  note no = match_callout_only [OF assms(2)]
  show "selectCommand args = CalloutInstall" if "MATCH_ARG args 2 ''install''"
    using that assms no by (simp add: selectCommand_def)
  show "selectCommand args = CalloutUninstall" if m: "MATCH_ARG args 2 ''uninstall''"
  proof -
    have "\<not> MATCH_ARG args 2 ''install''"
      by (rule match_excludes [OF m]) (simp add: foldCase_def)
    then show ?thesis
      using m assms no by (simp add: selectCommand_def)
  qed
  show "selectCommand args = CalloutReinstall" if m: "MATCH_ARG args 2 ''reinstall''"
  proof -
    have "\<not> MATCH_ARG args 2 ''install''"
      by (rule match_excludes [OF m]) (simp add: foldCase_def)
    moreover have "\<not> MATCH_ARG args 2 ''uninstall''"
      by (rule match_excludes [OF m]) (simp add: foldCase_def)
    ultimately show ?thesis
      using m assms no by (simp add: selectCommand_def)
  qed
qed

lemma run_callout_operation:
  assumes "2 < length args" and "MATCH_ARG args 1 ''callout''"
    and "selectCommand args = c"
    and "perform env args c =
           bind_act operation (\<lambda>result.
           bind_act (sendCheckDriverHint env) (\<lambda>_. return_act result))"
    and "operation (s\<lparr>trace := trace s @ [NewLogger ConfigLogFile]\<rparr>) = (Inr status, s1)"
  shows "run env args s =
           (Inr status,
            s1\<lparr>world := snd (Exec_cmd_run env
                    (path_append env (InstallationDir env) (BRAND_CODE env @ ''ctl.exe''))
                    [''-u'', ''checkdriver''] (world s1)),
               trace := trace s1 @
                 [Call (Exec_cmd
                    (path_append env (InstallationDir env) (BRAND_CODE env @ ''ctl.exe''))
                    [''-u'', ''checkdriver''])]\<rparr>)"
proof -
  have norun: "\<not> MATCH_ARG args 1 ''run''"
    using match_callout_only(3) [OF assms(2)] .
  show ?thesis
    unfolding run_selectCommand assms(3) assms(4)
    using assms(1,5) norun
    by (simp add: sendCheckDriverHint_def act_defs split: prod.split)
qed

text \<open>
  C3. Let token 1 match \<open>callout\<close> and token 2 match \<open>install\<close>, \<open>uninstall\<close> or
  \<open>reinstall\<close>, and let the matching operation, started after the setup log is opened,
  return \<open>status\<close> and leave the state \<open>s1\<close>. Then \<open>run\<close> returns \<open>status\<close>, and its final
  state is \<open>s1\<close> after one call of the control client (\<open>hinted s1\<close>): the trace holds exactly
  one more hint than before \<open>run\<close>. The control client's result is any value of
  \<open>Exec_cmd_run\<close>; it is dropped, so it has no part in the exit code.
\<close>

theorem run_callout_sends_hint_once:
  assumes "2 < length args" and "MATCH_ARG args 1 ''callout''"
    and "s0 = s\<lparr>trace := trace s @ [NewLogger ConfigLogFile]\<rparr>"
    and "program = path_append env (InstallationDir env) (BRAND_CODE env @ ''ctl.exe'')"
    and "hinted = (\<lambda>s1. s1\<lparr>world := snd (Exec_cmd_run env program [''-u'', ''checkdriver''] (world s1)),
                            trace := trace s1 @ [Call (Exec_cmd program [''-u'', ''checkdriver''])]\<rparr>)"
  shows "(MATCH_ARG args 2 ''install'' \<and> installCalloutDriver env s0 = (Inr status, s1) \<longrightarrow>
            run env args s = (Inr status, hinted s1)
          \<and> length (filter is_hint (trace (hinted s1))) = Suc (length (filter is_hint (trace s))))
       \<and> (MATCH_ARG args 2 ''uninstall'' \<and> uninstallCalloutDriver env s0 = (Inr status, s1) \<longrightarrow>
            run env args s = (Inr status, hinted s1)
          \<and> length (filter is_hint (trace (hinted s1))) = Suc (length (filter is_hint (trace s))))
       \<and> (MATCH_ARG args 2 ''reinstall'' \<and> reinstallCalloutDriver env s0 = (Inr status, s1) \<longrightarrow>
            run env args s = (Inr status, hinted s1)
          \<and> length (filter is_hint (trace (hinted s1))) = Suc (length (filter is_hint (trace s))))"
proof (intro conjI impI; elim conjE)
  note sel = selectCommand_callout_actions [OF assms(1,2)]
  have h0: "filter is_hint (trace s0) = filter is_hint (trace s)"
    by (simp add: assms(3))
  {
    assume m: "MATCH_ARG args 2 ''install''" and o: "installCalloutDriver env s0 = (Inr status, s1)"
    show "run env args s = (Inr status, hinted s1)"
      using run_callout_operation [where operation = "installCalloutDriver env" and env = env,
          OF assms(1,2) sel(1) [OF m] _ o [unfolded assms(3)]]
      by (simp add: assms(4,5))
    show "length (filter is_hint (trace (hinted s1))) = Suc (length (filter is_hint (trace s)))"
      using callout_operations_send_no_hint(1) [of env s0] o h0 by (simp add: assms(5))
  }
  {
    assume m: "MATCH_ARG args 2 ''uninstall''" and o: "uninstallCalloutDriver env s0 = (Inr status, s1)"
    show "run env args s = (Inr status, hinted s1)"
      using run_callout_operation [where operation = "uninstallCalloutDriver env" and env = env,
          OF assms(1,2) sel(2) [OF m] _ o [unfolded assms(3)]]
      by (simp add: assms(4,5))
    show "length (filter is_hint (trace (hinted s1))) = Suc (length (filter is_hint (trace s)))"
      using callout_operations_send_no_hint(2) [of env s0] o h0 by (simp add: assms(5))
  }
  {
    assume m: "MATCH_ARG args 2 ''reinstall''" and o: "reinstallCalloutDriver env s0 = (Inr status, s1)"
    show "run env args s = (Inr status, hinted s1)"
      using run_callout_operation [where operation = "reinstallCalloutDriver env" and env = env,
          OF assms(1,2) sel(3) [OF m] _ o [unfolded assms(3)]]
      by (simp add: assms(4,5))
    show "length (filter is_hint (trace (hinted s1))) = Suc (length (filter is_hint (trace s)))"
      using callout_operations_send_no_hint(3) [of env s0] o h0 by (simp add: assms(5))
  }
qed

text \<open>
  On the example machine, where the control client always fails with status 1: uninstalling
  a present driver exits with 30, installing over a present driver with the failure 22,
  reinstalling a driver in use with 31; each time one hint is sent.
\<close>

theorem run_callout_sends_hint_once_witness:
  "fst (run example_env [''pia-service.exe'', ''callout'', ''uninstall'']
          (start_state (fresh_machine\<lparr>callout_present := True\<rparr>))) = Inr 30
   \<and> hints_sent (world (snd (run example_env [''pia-service.exe'', ''callout'', ''uninstall'']
          (start_state (fresh_machine\<lparr>callout_present := True\<rparr>))))) = 1
   \<and> fst (run example_env [''pia-service.exe'', ''Callout'', ''INSTALL'']
          (start_state (fresh_machine\<lparr>callout_present := True\<rparr>))) = Inr 22
   \<and> hints_sent (world (snd (run example_env [''pia-service.exe'', ''Callout'', ''INSTALL'']
          (start_state (fresh_machine\<lparr>callout_present := True\<rparr>))))) = 1
   \<and> fst (run example_env [''pia-service.exe'', ''callout'', ''reinstall'']
          (start_state (fresh_machine\<lparr>callout_present := True, callout_in_use := True\<rparr>))) = Inr 31
   \<and> hints_sent (world (snd (run example_env [''pia-service.exe'', ''callout'', ''reinstall'']
          (start_state (fresh_machine\<lparr>callout_present := True, callout_in_use := True\<rparr>))))) = 1"
proof -
  let ?present = "start_state (fresh_machine\<lparr>callout_present := True\<rparr>)"
  let ?busy = "start_state (fresh_machine\<lparr>callout_present := True, callout_in_use := True\<rparr>)"
  let ?log = "\<lambda>s::machine state. s\<lparr>trace := trace s @ [NewLogger ConfigLogFile]\<rparr>"
  let ?u = "[''pia-service.exe'', ''callout'', ''uninstall'']"
  let ?i = "[''pia-service.exe'', ''Callout'', ''INSTALL'']"
  let ?r = "[''pia-service.exe'', ''callout'', ''reinstall'']"
  have mu: "2 < length ?u" "MATCH_ARG ?u 1 ''callout''" "MATCH_ARG ?u 2 ''uninstall''"
    by (simp_all add: MATCH_ARG_def foldCase_def)
  have mi: "2 < length ?i" "MATCH_ARG ?i 1 ''callout''" "MATCH_ARG ?i 2 ''install''"
    by (simp_all add: MATCH_ARG_def foldCase_def)
  have mr: "2 < length ?r" "MATCH_ARG ?r 1 ''callout''" "MATCH_ARG ?r 2 ''reinstall''"
    by (simp_all add: MATCH_ARG_def foldCase_def)
  have ou: "uninstallCalloutDriver example_env (?log ?present)
      = (Inr 30, snd (uninstallCalloutDriver example_env (?log ?present)))"
    by (simp add: driver_defs act_defs example_defs)
  have oi: "installCalloutDriver example_env (?log ?present)
      = (Inr 22, snd (installCalloutDriver example_env (?log ?present)))"
    by (simp add: driver_defs act_defs example_defs)
  have or: "reinstallCalloutDriver example_env (?log ?busy)
      = (Inr 31, snd (reinstallCalloutDriver example_env (?log ?busy)))"
    by (simp add: driver_defs act_defs example_defs)
  have wu: "world (snd (uninstallCalloutDriver example_env (?log ?present)))
      = fresh_machine\<lparr>callout_present := False\<rparr>"
    by (simp add: driver_defs act_defs example_defs)
  have wi: "world (snd (installCalloutDriver example_env (?log ?present)))
      = fresh_machine\<lparr>callout_present := True\<rparr>"
    by (simp add: driver_defs act_defs example_defs)
  have wr: "world (snd (reinstallCalloutDriver example_env (?log ?busy)))
      = fresh_machine\<lparr>callout_present := True, callout_in_use := True\<rparr>"
    by (simp add: driver_defs act_defs example_defs)
  have x: "\<And>p a w. Exec_cmd_run example_env p a w = (1, w\<lparr>hints_sent := Suc (hints_sent w)\<rparr>)"
    by (simp add: example_env_def)
  have u: "run example_env ?u ?present = (Inr 30,
      (snd (uninstallCalloutDriver example_env (?log ?present)))
        \<lparr>world := snd (Exec_cmd_run example_env
             (path_append example_env (InstallationDir example_env) (BRAND_CODE example_env @ ''ctl.exe''))
             [''-u'', ''checkdriver'']
             (world (snd (uninstallCalloutDriver example_env (?log ?present))))),
          trace := trace (snd (uninstallCalloutDriver example_env (?log ?present))) @
             [Call (Exec_cmd
                (path_append example_env (InstallationDir example_env) (BRAND_CODE example_env @ ''ctl.exe''))
                [''-u'', ''checkdriver''])]\<rparr>)"
    using run_callout_sends_hint_once [OF mu(1,2) refl refl refl,
        where status = 30 and ?s1.0 = "snd (uninstallCalloutDriver example_env (?log ?present))"]
      mu(3) ou
    by simp
  have i: "run example_env ?i ?present = (Inr 22,
      (snd (installCalloutDriver example_env (?log ?present)))
        \<lparr>world := snd (Exec_cmd_run example_env
             (path_append example_env (InstallationDir example_env) (BRAND_CODE example_env @ ''ctl.exe''))
             [''-u'', ''checkdriver'']
             (world (snd (installCalloutDriver example_env (?log ?present))))),
          trace := trace (snd (installCalloutDriver example_env (?log ?present))) @
             [Call (Exec_cmd
                (path_append example_env (InstallationDir example_env) (BRAND_CODE example_env @ ''ctl.exe''))
                [''-u'', ''checkdriver''])]\<rparr>)"
    using run_callout_sends_hint_once [OF mi(1,2) refl refl refl,
        where status = 22 and ?s1.0 = "snd (installCalloutDriver example_env (?log ?present))"]
      mi(3) oi
    by simp
  have r: "run example_env ?r ?busy = (Inr 31,
      (snd (reinstallCalloutDriver example_env (?log ?busy)))
        \<lparr>world := snd (Exec_cmd_run example_env
             (path_append example_env (InstallationDir example_env) (BRAND_CODE example_env @ ''ctl.exe''))
             [''-u'', ''checkdriver'']
             (world (snd (reinstallCalloutDriver example_env (?log ?busy))))),
          trace := trace (snd (reinstallCalloutDriver example_env (?log ?busy))) @
             [Call (Exec_cmd
                (path_append example_env (InstallationDir example_env) (BRAND_CODE example_env @ ''ctl.exe''))
                [''-u'', ''checkdriver''])]\<rparr>)"
    using run_callout_sends_hint_once [OF mr(1,2) refl refl refl,
        where status = 31 and ?s1.0 = "snd (reinstallCalloutDriver example_env (?log ?busy))"]
      mr(3) or
    by simp
  show ?thesis
    unfolding u i r using wu wi wr by (simp add: x fresh_machine_def)
qed

subsection \<open>Stopping the daemon\<close>

lemma stop_request_idempotent: "stop_request (stop_request p) = stop_request p"
  by (cases p) simp_all

lemma runDaemon_stores_daemon:
  assumes "WinDaemon_new env (world s) = (Inr d, w1)"
  shows "daemon (snd (runDaemon env s)) = Some d"
  using assms
  by (auto simp: runDaemon_def act_defs split: prod.splits sum.splits)

text \<open>
  C6, as the code has it. \<open>stopDaemon\<close> calls \<open>stop\<close> through \<open>_daemon\<close> without a test.
  Before \<open>runDaemon\<close> has constructed the daemon object and stored it in \<open>_daemon\<close> the call
  is undefined behaviour: nothing is defined after it, neither a return nor a later start
  of the daemon. Once the object is stored, and with the daemon's \<open>stop\<close> as the
  specification describes it, \<open>stopDaemon\<close> forwards the request and returns normally: it
  neither raises nor faults, and leaves the state \<open>s1\<close>. A second \<open>stopDaemon\<close> right after it
  returns normally too and leaves the daemon pointer and the world, the state of the daemon
  included, exactly as the first call left them.
\<close>

theorem stopDaemon_after_construction:
  assumes "env' = env\<lparr>WinDaemon_stop := Daemon_stop_spec\<rparr>"
    and "s1 = s\<lparr>world := snd (Daemon_stop_spec d (world s)),
                 trace := trace s @ [Call (Daemon_stop d)]\<rparr>"
  shows "(daemon s = None \<longrightarrow> stopDaemon env s = None \<and> stopDaemon env' s = None)
       \<and> (daemon s = Some d \<longrightarrow>
            stopDaemon env' s = Some (Inr (), s1)
          \<and> stopDaemon env' s1 = Some (Inr (), s1\<lparr>trace := trace s1 @ [Call (Daemon_stop d)]\<rparr>))"
proof (intro conjI impI)
  show "stopDaemon env s = None" if "daemon s = None"
    using that by (simp add: stopDaemon_def)
  show "stopDaemon env' s = None" if "daemon s = None"
    using that by (simp add: stopDaemon_def)
  show "stopDaemon env' s = Some (Inr (), s1)" if "daemon s = Some d"
    using that by (simp add: stopDaemon_def extern_def Daemon_stop_spec_def assms)
  show "stopDaemon env' s1 = Some (Inr (), s1\<lparr>trace := trace s1 @ [Call (Daemon_stop d)]\<rparr>)"
    if "daemon s = Some d"
    using that
    by (simp add: stopDaemon_def extern_def Daemon_stop_spec_def assms stop_request_idempotent)
qed

text \<open>
  On the example machine, whose daemon stops as the specification describes:
  \<open>stopDaemon\<close> on the fresh process is undefined; \<open>runDaemon\<close> stores the daemon object 0,
  and \<open>stopDaemon\<close> after it returns normally; on a running daemon the first \<open>stopDaemon\<close>
  moves it to Stopping and the second leaves it there.
\<close>

theorem stopDaemon_after_construction_witness:
  "stopDaemon example_env (start_state fresh_machine) = None
   \<and> daemon (snd (runDaemon example_env (start_state fresh_machine))) = Some 0
   \<and> map_option fst (stopDaemon example_env
        (snd (runDaemon example_env (start_state fresh_machine)))) = Some (Inr ())
   \<and> stopDaemon example_env
       \<lparr>daemon = Some 0,
        world = fresh_machine\<lparr>daemon_phase := (\<lambda>d. Idle)(0 := Running), daemons_made := 1\<rparr>,
        trace = []\<rparr>
     = Some (Inr (),
        \<lparr>daemon = Some 0,
         world = fresh_machine\<lparr>daemon_phase := (\<lambda>d. Idle)(0 := Stopping), daemons_made := 1\<rparr>,
         trace = [Call (Daemon_stop 0)]\<rparr>)
   \<and> stopDaemon example_env
       \<lparr>daemon = Some 0,
        world = fresh_machine\<lparr>daemon_phase := (\<lambda>d. Idle)(0 := Stopping), daemons_made := 1\<rparr>,
        trace = [Call (Daemon_stop 0)]\<rparr>
     = Some (Inr (),
        \<lparr>daemon = Some 0,
         world = fresh_machine\<lparr>daemon_phase := (\<lambda>d. Idle)(0 := Stopping), daemons_made := 1\<rparr>,
         trace = [Call (Daemon_stop 0), Call (Daemon_stop 0)]\<rparr>)"
proof -
  let ?r = "snd (runDaemon example_env (start_state fresh_machine))"
  let ?s = "\<lparr>daemon = Some 0,
        world = fresh_machine\<lparr>daemon_phase := (\<lambda>d. Idle)(0 := Running), daemons_made := 1\<rparr>,
        trace = []\<rparr>"
  have e: "example_env = example_env\<lparr>WinDaemon_stop := Daemon_stop_spec\<rparr>"
    by (simp add: example_env_def)
  have n: "WinDaemon_new example_env (world (start_state fresh_machine))
      = (Inr 0, fresh_machine\<lparr>daemons_made := 1\<rparr>)"
    by (simp add: example_defs)
  have r: "daemon ?r = Some 0"
    by (rule runDaemon_stores_daemon [OF n])
  have a: "stopDaemon example_env (start_state fresh_machine) = None"
    using stopDaemon_after_construction [OF e refl, of "start_state fresh_machine" 0]
    by (simp add: start_state_def)
  have b: "map_option fst (stopDaemon example_env ?r) = Some (Inr ())"
    using stopDaemon_after_construction [OF e refl, of ?r 0] r by simp
  have c: "stopDaemon example_env ?s
      = Some (Inr (), ?s\<lparr>world := snd (Daemon_stop_spec 0 (world ?s)),
                           trace := trace ?s @ [Call (Daemon_stop 0)]\<rparr>)"
    "stopDaemon example_env
        (?s\<lparr>world := snd (Daemon_stop_spec 0 (world ?s)), trace := trace ?s @ [Call (Daemon_stop 0)]\<rparr>)
      = Some (Inr (),
          (?s\<lparr>world := snd (Daemon_stop_spec 0 (world ?s)),
               trace := trace ?s @ [Call (Daemon_stop 0)]\<rparr>)
            \<lparr>trace := trace (?s\<lparr>world := snd (Daemon_stop_spec 0 (world ?s)),
                                  trace := trace ?s @ [Call (Daemon_stop 0)]\<rparr>)
                        @ [Call (Daemon_stop 0)]\<rparr>)"
    using stopDaemon_after_construction [OF e refl, of ?s 0] by simp_all
  have w: "snd (Daemon_stop_spec 0 (world ?s))
      = fresh_machine\<lparr>daemon_phase := (\<lambda>d. Idle)(0 := Stopping), daemons_made := 1\<rparr>"
    by (simp add: Daemon_stop_spec_def fresh_machine_def)
  show ?thesis
    using a r b c unfolding w by simp
qed

text \<open>
  C6 as stated fails: called on the freshly constructed console, before \<open>run\<close> has started
  a daemon, \<open>stopDaemon\<close> calls through the unset pointer; it has no defined outcome, so it
  does not return without a fault.
\<close>

theorem stopDaemon_before_run_counterexample:
  "stopDaemon example_env (start_state fresh_machine) = None"
  by (simp add: stopDaemon_def start_state_def)

subsection \<open>Letter case\<close>

lemma foldCase_toUpper: "foldCase (toUpper c) = foldCase c"
proof -
  define u :: nat where "u = of_char c"
  show ?thesis
  proof (cases "97 \<le> u \<and> u \<le> 122")
    case True
    then have m: "(u - 32) mod 256 = u - 32"
      by (intro mod_less) linarith
    have "foldCase (char_of (u - 32)) = u"
      using True unfolding foldCase_def Let_def of_char_of m by auto
    moreover have "foldCase c = u"
      using True unfolding foldCase_def Let_def u_def [symmetric] by auto
    moreover have "toUpper c = char_of (u - 32)"
      using True unfolding toUpper_def u_def by simp
    ultimately show ?thesis by simp
  next
    case False
    then show ?thesis
      unfolding toUpper_def u_def by auto
  qed
qed

lemma foldCase_toLower: "foldCase (toLower c) = foldCase c"
proof -
  define u :: nat where "u = of_char c"
  show ?thesis
  proof (cases "65 \<le> u \<and> u \<le> 90")
    case True
    then have m: "(u + 32) mod 256 = u + 32"
      by (intro mod_less) linarith
    have "foldCase (char_of (u + 32)) = u + 32"
      using True unfolding foldCase_def Let_def of_char_of m by auto
    moreover have "foldCase c = u + 32"
      using True unfolding foldCase_def Let_def u_def [symmetric] by auto
    moreover have "toLower c = char_of (u + 32)"
      using True unfolding toLower_def u_def by simp
    ultimately show ?thesis by simp
  next
    case False
    then show ?thesis
      unfolding toLower_def u_def by auto
  qed
qed

lemma case_variant_foldCase:
  assumes "case_variant a b"
  shows "map foldCase b = map foldCase a"
  using assms unfolding case_variant_def
  by (induction a b rule: list_all2_induct) (auto simp: foldCase_toUpper foldCase_toLower)

lemma perform_recognized:
  assumes "c \<noteq> Unrecognized"
  shows "perform env args' c = perform env args c"
  using assms by (cases c) simp_all

lemma selectCommand_Unrecognized_length:
  assumes "selectCommand args = Unrecognized"
  shows "1 < length args"
  using assms by (simp add: selectCommand_def split: if_splits)

lemma run_Unrecognized:
  assumes "selectCommand args = Unrecognized"
  shows "run env args s =
           (Inr 1, s\<lparr>trace := trace s @
              [NewLogger (if MATCH_ARG args 1 ''run'' then DaemonLogFile else ConfigLogFile),
               Log Critical [Text ''Unrecognized command:'', Tokens (drop 1 args)],
               Print stdout
                 [''Unrecognized command; type '' @ [CHR 0x27] @ baseName env (args ! 0)
                    @ '' help'' @ [CHR 0x27] @ '' for a list of available commands.'']]\<rparr>)"
  unfolding run_selectCommand assms
  using selectCommand_Unrecognized_length [OF assms]
  by (simp add: unrecognizedCommand_def act_defs)

lemma case_variant_tokens:
  assumes "args' = (args[1 := v1])[2 := v2]"
    and "1 < length args \<longrightarrow> case_variant (args ! 1) v1"
    and "2 < length args \<longrightarrow> case_variant (args ! 2) v2"
  shows "length args' = length args"
    and "1 < length args \<Longrightarrow> MATCH_ARG args' 1 w = MATCH_ARG args 1 w"
    and "2 < length args \<Longrightarrow> MATCH_ARG args' 2 w = MATCH_ARG args 2 w"
proof -
  show "length args' = length args"
    by (simp add: assms(1))
  show "MATCH_ARG args' 1 w = MATCH_ARG args 1 w" if l: "1 < length args"
  proof -
    have "args' ! 1 = v1"
      using l by (simp add: assms(1))
    then show ?thesis
      using case_variant_foldCase [of "args ! 1" v1] assms(2) l by (simp add: MATCH_ARG_iff)
  qed
  show "MATCH_ARG args' 2 w = MATCH_ARG args 2 w" if l: "2 < length args"
  proof -
    have "args' ! 2 = v2"
      using l by (simp add: assms(1))
    then show ?thesis
      using case_variant_foldCase [of "args ! 2" v2] assms(3) l by (simp add: MATCH_ARG_iff)
  qed
qed

lemma case_variant_selectCommand:
  assumes "args' = (args[1 := v1])[2 := v2]"
    and "1 < length args \<longrightarrow> case_variant (args ! 1) v1"
    and "2 < length args \<longrightarrow> case_variant (args ! 2) v2"
  shows "selectCommand args' = selectCommand args"
proof -
  note t = case_variant_tokens [OF assms]
  consider "length args \<le> 1" | "length args = 2" | "2 < length args"
    by linarith
  then show ?thesis
  proof cases
    case 1
    then show ?thesis
      using t(1) by (simp add: selectCommand_def)
  next
    case 2
    then have "1 < length args" by simp
    then show ?thesis
      using 2 t(1) t(2) by (simp add: selectCommand_def)
  next
    case 3
    then have "1 < length args" by simp
    then show ?thesis
      using 3 t(1) t(2) t(3) [OF 3] by (simp add: selectCommand_def)
  qed
qed

text \<open>
  C9. Replace token 1 and token 2 of an argument vector by case variants \<open>v1\<close> and \<open>v2\<close>
  (where the vector has these tokens). The command selected is the same. When it is not
  \<open>Unrecognized\<close>, \<open>run\<close> does exactly the same; in every case \<open>run\<close> returns the same exit
  code, leaves the same world and daemon pointer, and performs the same operations in the
  same order (after an unrecognized command only the tokens quoted in the log differ). In
  particular \<open>RUN\<close>, \<open>Run\<close> and \<open>run\<close> all select \<open>Run\<close>.
\<close>

theorem command_matching_ignores_case:
  assumes "args' = (args[1 := v1])[2 := v2]"
    and "1 < length args \<longrightarrow> case_variant (args ! 1) v1"
    and "2 < length args \<longrightarrow> case_variant (args ! 2) v2"
  shows "selectCommand args' = selectCommand args
       \<and> (selectCommand args \<noteq> Unrecognized \<longrightarrow> run env args' s = run env args s)
       \<and> fst (run env args' s) = fst (run env args s)
       \<and> world (snd (run env args' s)) = world (snd (run env args s))
       \<and> daemon (snd (run env args' s)) = daemon (snd (run env args s))
       \<and> operations (trace (snd (run env args' s))) = operations (trace (snd (run env args s)))
       \<and> selectCommand [p, ''RUN''] = Run
       \<and> selectCommand [p, ''Run''] = Run
       \<and> selectCommand [p, ''run''] = Run"
proof -
  note t = case_variant_tokens [OF assms]
  have sel: "selectCommand args' = selectCommand args"
    by (rule case_variant_selectCommand [OF assms])
  have same: "run env args' s = run env args s" if r: "selectCommand args \<noteq> Unrecognized"
  proof (cases "1 < length args")
    case True
    show ?thesis
      unfolding run_selectCommand sel perform_recognized [OF r, of env args' args]
      using True t(1) t(2) [OF True] by simp
  next
    case False
    then show ?thesis
      unfolding run_selectCommand sel perform_recognized [OF r, of env args' args]
      using t(1) by simp
  qed
  have rest: "fst (run env args' s) = fst (run env args s)
       \<and> world (snd (run env args' s)) = world (snd (run env args s))
       \<and> daemon (snd (run env args' s)) = daemon (snd (run env args s))
       \<and> operations (trace (snd (run env args' s))) = operations (trace (snd (run env args s)))"
  proof (cases "selectCommand args = Unrecognized")
    case True
    then have "selectCommand args' = Unrecognized"
      using sel by simp
    then show ?thesis
      using run_Unrecognized [of args' env s] run_Unrecognized [OF True, of env s]
      by (simp add: operations_def)
  next
    case False
    then show ?thesis
      using same by simp
  qed
  have particular: "selectCommand [p, ''RUN''] = Run" "selectCommand [p, ''Run''] = Run"
    "selectCommand [p, ''run''] = Run"
    by (simp_all add: selectCommand_def MATCH_ARG_def foldCase_def)
  show ?thesis
    using sel same rest particular by simp
qed

text \<open>
  On the example machine \<open>TAP ReInstall\<close> does what \<open>tap reinstall\<close> does and exits with
  the install's 20, and \<open>FROBnicate\<close> is as unrecognized as \<open>frobnicate\<close>.
\<close>

theorem command_matching_ignores_case_witness:
  "selectCommand [''pia-service.exe'', ''TAP'', ''ReInstall''] = TapReinstall
   \<and> run example_env [''pia-service.exe'', ''TAP'', ''ReInstall''] (start_state fresh_machine)
     = run example_env [''pia-service.exe'', ''tap'', ''reinstall''] (start_state fresh_machine)
   \<and> fst (run example_env [''pia-service.exe'', ''TAP'', ''ReInstall''] (start_state fresh_machine))
     = Inr 20
   \<and> selectCommand [''pia-service.exe'', ''FROBnicate''] = Unrecognized
   \<and> fst (run example_env [''pia-service.exe'', ''FROBnicate''] (start_state fresh_machine))
     = fst (run example_env [''pia-service.exe'', ''frobnicate''] (start_state fresh_machine))"
proof -
  let ?a = "[''pia-service.exe'', ''tap'', ''reinstall'']"
  let ?b = "[''pia-service.exe'', ''frobnicate'']"
  have v1: "case_variant ''tap'' ''TAP''" by code_simp
  have v2: "case_variant ''reinstall'' ''ReInstall''" by code_simp
  have v3: "case_variant ''frobnicate'' ''FROBnicate''" by code_simp
  have sa: "selectCommand ?a = TapReinstall"
    by (simp add: selectCommand_def MATCH_ARG_def foldCase_def)
  have sb: "selectCommand ?b = Unrecognized"
    by (simp add: selectCommand_def MATCH_ARG_def foldCase_def)
  have ra: "fst (run example_env ?a (start_state fresh_machine)) = Inr 20"
    by (simp add: run_defs driver_defs act_defs example_defs)
  note ta = command_matching_ignores_case
    [of "[''pia-service.exe'', ''TAP'', ''ReInstall'']" ?a "''TAP''" "''ReInstall''"
      example_env "start_state fresh_machine" "''pia-service.exe''"]
  note tb = command_matching_ignores_case
    [of "[''pia-service.exe'', ''FROBnicate'']" ?b "''FROBnicate''" "''x''"
      example_env "start_state fresh_machine" "''pia-service.exe''"]
  have a: "selectCommand [''pia-service.exe'', ''TAP'', ''ReInstall''] = selectCommand ?a"
    "run example_env [''pia-service.exe'', ''TAP'', ''ReInstall''] (start_state fresh_machine)
       = run example_env ?a (start_state fresh_machine)"
    using ta v1 v2 sa by simp_all
  have b: "selectCommand [''pia-service.exe'', ''FROBnicate''] = selectCommand ?b"
    "fst (run example_env [''pia-service.exe'', ''FROBnicate''] (start_state fresh_machine))
       = fst (run example_env ?b (start_state fresh_machine))"
    using tb v3 by simp_all
  show ?thesis
    using a b sa sb ra by simp
qed

end
